theory Spec2Isabelle
  imports Complex_Main
begin

section \<open>Errors\<close>

text \<open>
  The notebooks contain no \<^verbatim>\<open>try\<close>, no \<^verbatim>\<open>raise\<close> and no exception class of
  their own. Every error below is one that Python, NumPy or the tensor library raises
  inside a call the notebooks make; \<open>LibError\<close> stands for any other failure of
  external code (a download that fails, a device that is missing).
\<close>

datatype error =
    ValueError
  | IndexError
  | TypeError
  | NameError
  | KeyError
  | ShapeError
  | LibError string

text \<open>Sequencing of fallible steps: the first error ends the computation.\<close>

definition then_do :: "error + 'a \<Rightarrow> ('a \<Rightarrow> error + 'b) \<Rightarrow> error + 'b" where
  "then_do m f = (case m of Inl e \<Rightarrow> Inl e | Inr v \<Rightarrow> f v)"

section \<open>Tensors\<close>

text \<open>
  Modelled from the spec: the tensor type and its operations belong to the tensor
  library, whose code is not among the source files. The spec calls a tensor "a
  multi-dimensional numeric array type provided by the external library" and lists
  "tensor construction" in the library's public API; the first notebook says tensors
  "are more or less glorified wrappers around NumPy or CuPy arrays" that "can be used in
  a very similar way to NumPy arrays". The operations below follow NumPy's documented
  behaviour for the calls the notebooks make.

  A tensor is a shape and its elements in row-major order. The element type and the
  arithmetic on elements stay abstract: the notebooks compute in 32-bit floating point
  inside the tensor library, and nothing below depends on how a sum, a square root or a
  cast rounds. The record \<open>arith\<close> names the five element-level operations the
  \<^verbatim>\<open>scale\<close> helper reaches through the library: the mean and the standard
  deviation of a list of elements, the cast to a data type, subtraction and division.
\<close>

datatype dtype = Float32 | Float64 | Int32 | Int64

record 'a arith =
  el_mean :: "'a list \<Rightarrow> 'a"
  el_std :: "'a list \<Rightarrow> 'a"
  el_cast :: "dtype \<Rightarrow> 'a \<Rightarrow> 'a"
  el_sub :: "'a \<Rightarrow> 'a \<Rightarrow> 'a"
  el_div :: "'a \<Rightarrow> 'a \<Rightarrow> 'a"

record 'a tensor =
  shape :: "nat list"
  elems :: "'a list"

definition wf_tensor :: "'a tensor \<Rightarrow> bool" where
  "wf_tensor x = (length (elems x) = prod_list (shape x))"

text \<open>A zero-dimensional tensor, as \<^verbatim>\<open>x.mean()\<close> and \<^verbatim>\<open>x.std()\<close> return.\<close>

definition scalar :: "'a \<Rightarrow> 'a tensor" where
  "scalar c = \<lparr>shape = [], elems = [c]\<rparr>"

definition map_elems :: "('a \<Rightarrow> 'b) \<Rightarrow> 'a tensor \<Rightarrow> 'b tensor" where
  "map_elems f x = \<lparr>shape = shape x, elems = map f (elems x)\<rparr>"

text \<open>\<^verbatim>\<open>x.to_float()\<close> and \<^verbatim>\<open>x.to_int()\<close> cast every element and keep the shape.\<close>

definition to_float :: "'a arith \<Rightarrow> 'a tensor \<Rightarrow> 'a tensor" where
  "to_float A x = map_elems (el_cast A Float32) x"

definition to_int :: "'a arith \<Rightarrow> 'a tensor \<Rightarrow> 'a tensor" where
  "to_int A x = map_elems (el_cast A Int32) x"

text \<open>
  Modelled from the spec: \<^verbatim>\<open>cp.reshape\<close> is the library's; the notebook's comment
  gives its use, "reshape the data into an image format (B, 784) -> (B, 1, 28, 28)".
  \<^verbatim>\<open>cp.reshape(x, shape)\<close> hands the array to NumPy's reshape. At most one entry of
  the new shape may be negative (the notebook writes \<open>-1\<close>); it is inferred from the
  number of elements and the product of the other entries, and NumPy raises
  \<^verbatim>\<open>ValueError\<close> when that product is zero or does not divide the number of elements.
  Without a negative entry the product must equal the number of elements. The elements
  keep their row-major order. Extents are natural numbers here: the overflow of a
  product of extents beyond 64 bits, which NumPy reports as a \<^verbatim>\<open>ValueError\<close>, is left
  out, the extents of the notebooks being those of arrays held in memory.
\<close>

definition np_reshape :: "'a tensor \<Rightarrow> int list \<Rightarrow> error + 'a tensor" where
  "np_reshape x newshape =
     (let size = int (prod_list (shape x));
          unknown = length (filter (\<lambda>d. d < 0) newshape);
          known = prod_list (filter (\<lambda>d. 0 \<le> d) newshape)
      in if 1 < unknown then Inl ValueError
         else if unknown = 1 then
           (if known = 0 then Inl ValueError
            else if size mod known \<noteq> 0 then Inl ValueError
            else Inr \<lparr>shape = map (\<lambda>d. nat (if d < 0 then size div known else d)) newshape,
                      elems = elems x\<rparr>)
         else if known = size then Inr \<lparr>shape = map nat newshape, elems = elems x\<rparr>
         else Inl ValueError)"

text \<open>\<^verbatim>\<open>x.shape[0]\<close>: indexing the empty shape tuple raises \<^verbatim>\<open>IndexError\<close>.\<close>

definition shape0 :: "'a tensor \<Rightarrow> error + nat" where
  "shape0 x = (case shape x of [] \<Rightarrow> Inl IndexError | n # rest \<Rightarrow> Inr n)"

text \<open>\<^verbatim>\<open>len(x)\<close> is the first extent; a zero-dimensional tensor has no length.\<close>

definition len_t :: "'a tensor \<Rightarrow> error + nat" where
  "len_t x = (case shape x of [] \<Rightarrow> Inl TypeError | n # rest \<Rightarrow> Inr n)"

text \<open>
  \<^verbatim>\<open>x[i]\<close> for an integer \<open>i\<close>: a negative index counts from the end, an index outside
  \<open>-n \<le> i < n\<close> raises \<^verbatim>\<open>IndexError\<close>, and the result is the \<open>i\<close>-th block of the
  row-major elements.
\<close>

definition getitem0 :: "'a tensor \<Rightarrow> int \<Rightarrow> error + 'a tensor" where
  "getitem0 x i =
     (case shape x of
        [] \<Rightarrow> Inl IndexError
      | n # rest \<Rightarrow>
          (let j = (if i < 0 then i + int n else i); m = prod_list rest
           in if 0 \<le> j \<and> j < int n
              then Inr \<lparr>shape = rest, elems = take m (drop (nat j * m) (elems x))\<rparr>
              else Inl IndexError))"

text \<open>
  The column slices of the data cells: \<^verbatim>\<open>x[:, j:]\<close> keeps the columns from \<open>j\<close> on
  (a slice never raises), \<^verbatim>\<open>x[:, j]\<close> selects column \<open>j\<close> and drops that dimension.
  Both need at least two dimensions.
\<close>

fun chunk :: "nat \<Rightarrow> nat \<Rightarrow> 'a list \<Rightarrow> 'a list list" where
  "chunk 0 w xs = []"
| "chunk (Suc n) w xs = take w xs # chunk n w (drop w xs)"

definition cols_from :: "nat \<Rightarrow> 'a tensor \<Rightarrow> error + 'a tensor" where
  "cols_from j x =
     (case shape x of
        n # w # rest \<Rightarrow>
          (let p = prod_list rest
           in Inr \<lparr>shape = n # (w - j) # rest,
                    elems = concat (map (drop (j * p)) (chunk n (w * p) (elems x)))\<rparr>)
      | _ \<Rightarrow> Inl IndexError)"

definition col :: "nat \<Rightarrow> 'a tensor \<Rightarrow> error + 'a tensor" where
  "col j x =
     (case shape x of
        n # w # rest \<Rightarrow>
          (let p = prod_list rest
           in if j < w
              then Inr \<lparr>shape = n # rest,
                        elems = concat (map (\<lambda>r. take p (drop (j * p) r))
                                         (chunk n (w * p) (elems x)))\<rparr>
              else Inl IndexError)
      | _ \<Rightarrow> Inl IndexError)"

section \<open>The data cell of the MNIST notebook\<close>

text \<open>
  \<^verbatim>\<open>
  X_train = cp.reshape(X_train, shape=(X_train.shape[0], 1 , 28, -1)).to_float()
  X_val = cp.reshape(X_val, shape=(X_val.shape[0], 1, 28, -1)).to_float()
  X_test = cp.reshape(X_test, shape=(X_test.shape[0], 1, 28, -1)).to_float()
  \<close>
\<close>

definition reshape_images :: "'a arith \<Rightarrow> 'a tensor \<Rightarrow> error + 'a tensor" where
  "reshape_images A X =
     then_do (shape0 X) (\<lambda>b.
     then_do (np_reshape X [int b, 1, 28, - 1]) (\<lambda>Y.
     Inr (to_float A Y)))"

subsection \<open>The scale helper\<close>

text \<open>
  \<^verbatim>\<open>
  def scale(x: cp.Tensor) -> cp.Tensor:
      mean_px = x.mean().to_type(cp.float32)
      std_px = x.std().to_type(cp.float32)
      return (x - mean_px)/(std_px)
  \<close>
  Python passes \<^verbatim>\<open>x\<close> by reference, so whether the call changes \<^verbatim>\<open>x\<close> is a
  question about the object store. The store is a list of objects, a reference is an
  index into it. The five library operations are parameters: each takes the store and
  the references of its operands and returns the new store and the reference of its
  result, or an error.
\<close>

type_synonym ref = nat
type_synonym 'v heap = "'v list"

definition lookup :: "'v heap \<Rightarrow> ref \<Rightarrow> 'v option" where
  "lookup h a = (if a < length h then Some (h ! a) else None)"

record 'v tlib =
  t_mean :: "'v heap \<Rightarrow> ref \<Rightarrow> error + 'v heap \<times> ref"
  t_std :: "'v heap \<Rightarrow> ref \<Rightarrow> error + 'v heap \<times> ref"
  t_to_type :: "'v heap \<Rightarrow> ref \<Rightarrow> dtype \<Rightarrow> error + 'v heap \<times> ref"
  t_sub :: "'v heap \<Rightarrow> ref \<Rightarrow> ref \<Rightarrow> error + 'v heap \<times> ref"
  t_truediv :: "'v heap \<Rightarrow> ref \<Rightarrow> ref \<Rightarrow> error + 'v heap \<times> ref"

definition scale :: "'v tlib \<Rightarrow> 'v heap \<Rightarrow> ref \<Rightarrow> error + 'v heap \<times> ref" where
  "scale L h x =
     then_do (t_mean L h x) (\<lambda>(h1, m).
     then_do (t_to_type L h1 m Float32) (\<lambda>(h2, mean_px).
     then_do (t_std L h2 x) (\<lambda>(h3, s).
     then_do (t_to_type L h3 s Float32) (\<lambda>(h4, std_px).
     then_do (t_sub L h4 x mean_px) (\<lambda>(h5, d).
     t_truediv L h5 d std_px)))))"

text \<open>
  What the helper is said to return, written from the description rather than from the
  code: \<open>(x - mean(x)) / std(x)\<close>, where the mean and the standard deviation are taken
  over all elements of \<open>x\<close> and cast to \<^verbatim>\<open>float32\<close>, applied to every element.
\<close>

definition scale_spec :: "'a arith \<Rightarrow> 'a tensor \<Rightarrow> 'a tensor" where
  "scale_spec A x =
     (let mean_x = el_cast A Float32 (el_mean A (elems x));
          std_x = el_cast A Float32 (el_std A (elems x))
      in map_elems (\<lambda>v. el_div A (el_sub A v mean_x) std_x) x)"

text \<open>
  What the helper needs from the library. \<open>frame h h'\<close>: every object of \<open>h\<close> is still
  in \<open>h'\<close>, unchanged. A reduction returns a zero-dimensional tensor computed from all
  elements of its operand; a cast maps every element; a binary operator with a
  zero-dimensional right operand applies it to every element of the left one. All of
  them succeed on objects that exist and leave the objects of the store as they are.
\<close>

definition frame :: "'v heap \<Rightarrow> 'v heap \<Rightarrow> bool" where
  "frame h h' = (\<forall>a v. lookup h a = Some v \<longrightarrow> lookup h' a = Some v)"

definition reduces ::
  "('a tensor heap \<Rightarrow> ref \<Rightarrow> error + 'a tensor heap \<times> ref) \<Rightarrow> ('a list \<Rightarrow> 'a) \<Rightarrow> bool" where
  "reduces op f =
     (\<forall>h a v. lookup h a = Some v \<longrightarrow>
        (\<exists>h' r. op h a = Inr (h', r) \<and> lookup h' r = Some (scalar (f (elems v)))
           \<and> frame h h'))"

definition casts ::
  "('a tensor heap \<Rightarrow> ref \<Rightarrow> dtype \<Rightarrow> error + 'a tensor heap \<times> ref)
   \<Rightarrow> (dtype \<Rightarrow> 'a \<Rightarrow> 'a) \<Rightarrow> bool" where
  "casts op c =
     (\<forall>h a v d. lookup h a = Some v \<longrightarrow>
        (\<exists>h' r. op h a d = Inr (h', r) \<and> lookup h' r = Some (map_elems (c d) v)
           \<and> frame h h'))"

definition broadcasts ::
  "('a tensor heap \<Rightarrow> ref \<Rightarrow> ref \<Rightarrow> error + 'a tensor heap \<times> ref)
   \<Rightarrow> ('a \<Rightarrow> 'a \<Rightarrow> 'a) \<Rightarrow> bool" where
  "broadcasts op f =
     (\<forall>h a b v c. lookup h a = Some v \<longrightarrow> lookup h b = Some (scalar c) \<longrightarrow>
        (\<exists>h' r. op h a b = Inr (h', r) \<and> lookup h' r = Some (map_elems (\<lambda>e. f e c) v)
           \<and> frame h h'))"

definition numpy_like :: "'a tensor tlib \<Rightarrow> 'a arith \<Rightarrow> bool" where
  "numpy_like L A =
     (reduces (t_mean L) (el_mean A) \<and> reduces (t_std L) (el_std A)
      \<and> casts (t_to_type L) (el_cast A)
      \<and> broadcasts (t_sub L) (el_sub A) \<and> broadcasts (t_truediv L) (el_div A))"

text \<open>
  A library of this kind: every operation reads its operands and puts its result into
  a new cell at the end of the store.
\<close>

definition alloc :: "'v heap \<Rightarrow> 'v \<Rightarrow> 'v heap \<times> ref" where
  "alloc h v = (h @ [v], length h)"

definition with_tensor :: "'v heap \<Rightarrow> ref \<Rightarrow> ('v \<Rightarrow> error + 'b) \<Rightarrow> error + 'b" where
  "with_tensor h a f = (case lookup h a of None \<Rightarrow> Inl NameError | Some v \<Rightarrow> f v)"

definition with_scalar :: "'a tensor heap \<Rightarrow> ref \<Rightarrow> ('a \<Rightarrow> error + 'b) \<Rightarrow> error + 'b" where
  "with_scalar h a f =
     with_tensor h a (\<lambda>w. case elems w of
                             [c] \<Rightarrow> (if shape w = [] then f c else Inl ValueError)
                           | _ \<Rightarrow> Inl ValueError)"

definition fresh_lib :: "'a arith \<Rightarrow> 'a tensor tlib" where
  "fresh_lib A =
     \<lparr>t_mean = (\<lambda>h a. with_tensor h a (\<lambda>v. Inr (alloc h (scalar (el_mean A (elems v)))))),
      t_std = (\<lambda>h a. with_tensor h a (\<lambda>v. Inr (alloc h (scalar (el_std A (elems v)))))),
      t_to_type = (\<lambda>h a d. with_tensor h a (\<lambda>v. Inr (alloc h (map_elems (el_cast A d) v)))),
      t_sub = (\<lambda>h a b. with_tensor h a (\<lambda>v. with_scalar h b (\<lambda>c.
                 Inr (alloc h (map_elems (\<lambda>e. el_sub A e c) v))))),
      t_truediv = (\<lambda>h a b. with_tensor h a (\<lambda>v. with_scalar h b (\<lambda>c.
                 Inr (alloc h (map_elems (\<lambda>e. el_div A e c) v)))))\<rparr>"

text \<open>
  The free arithmetic: an element is the expression that computes it. It shows which
  operations reach an element, in which order, without fixing a number format.
\<close>

datatype sym =
    Num int
  | Mean "sym list"
  | Std "sym list"
  | Cast dtype sym
  | Sub sym sym
  | Div sym sym

definition symbolic :: "sym arith" where
  "symbolic = \<lparr>el_mean = Mean, el_std = Std, el_cast = Cast, el_sub = Sub, el_div = Div\<rparr>"

subsection \<open>Features and targets\<close>

text \<open>
  Each of \<^verbatim>\<open>train\<close>, \<^verbatim>\<open>val\<close> and \<^verbatim>\<open>test\<close> goes through the same three statements
  (shown for \<^verbatim>\<open>test\<close>):
  \<^verbatim>\<open>
  X_test, y_test = test[:, 1:], test[:, 0].to_int()
  X_test = cp.reshape(X_test, shape=(X_test.shape[0], 1, 28, -1)).to_float()
  X_test = scale(X_test)
  \<close>
  The slices and the reshape are computed on tensor values; the call of \<^verbatim>\<open>scale\<close>
  runs in a store that holds its argument, and the value of its result is read back.
\<close>

definition scale_value :: "'v tlib \<Rightarrow> 'v \<Rightarrow> error + 'v" where
  "scale_value L X =
     then_do (scale L [X] 0) (\<lambda>(h, r).
     case lookup h r of None \<Rightarrow> Inl NameError | Some Y \<Rightarrow> Inr Y)"

definition prepare_part ::
  "'a tensor tlib \<Rightarrow> 'a arith \<Rightarrow> 'a tensor \<Rightarrow> error + ('a tensor \<times> 'a tensor)" where
  "prepare_part L A part =
     then_do (cols_from 1 part) (\<lambda>X0.
     then_do (col 0 part) (\<lambda>y0.
     (let y = to_int A y0
      in then_do (reshape_images A X0) (\<lambda>X1.
         then_do (scale_value L X1) (\<lambda>X.
         Inr (X, y))))))"

subsection \<open>Picking a random test image\<close>

text \<open>
  \<^verbatim>\<open>random.randint(a, b)\<close> returns an integer \<open>N\<close> with \<open>a \<le> N \<le> b\<close> and raises
  \<^verbatim>\<open>ValueError\<close> when the range is empty. The generator's draw is the parameter
  \<open>r\<close>.
  \<^verbatim>\<open>
  i = random.randint(0, len(X_test) - 1)
  image = cp.movedim(X_test[i], from_dim=0, to_dim=-1)
  ...
  print(f"correct label: {y_test[i].item()}")
  \<close>
\<close>

definition randint :: "int \<Rightarrow> int \<Rightarrow> nat \<Rightarrow> error + int" where
  "randint a b r = (if b < a then Inl ValueError else Inr (a + int r mod (b - a + 1)))"

definition pick_image ::
  "nat \<Rightarrow> 'a tensor \<Rightarrow> 'a tensor \<Rightarrow> error + (int \<times> 'a tensor \<times> 'a tensor)" where
  "pick_image r X_test y_test =
     then_do (len_t X_test) (\<lambda>n.
     then_do (randint 0 (int n - 1) r) (\<lambda>i.
     then_do (getitem0 X_test i) (\<lambda>image.
     then_do (getitem0 y_test i) (\<lambda>label.
     Inr (i, image, label)))))"

section \<open>Layer declarations and their shapes\<close>

text \<open>
  The constructors below are the layer classes the notebooks instantiate, with the
  arguments the notebooks pass: \<^verbatim>\<open>nn.Conv2D(in_channels, out_channels, kernel_size, bias=...)\<close>,
  \<^verbatim>\<open>nn.Linear(in_channels, out_channels, bias=...)\<close>, \<^verbatim>\<open>nn.MaxPooling2D(kernel_size)\<close>,
  \<^verbatim>\<open>nn.BatchNorm1D(channels)\<close>, \<^verbatim>\<open>nn.BatchNorm2D(channels)\<close>, \<^verbatim>\<open>nn.Dropout(p)\<close>,
  \<^verbatim>\<open>nn.ReLU()\<close> and \<^verbatim>\<open>nn.Flatten()\<close>. The boolean is the \<^verbatim>\<open>bias\<close> argument
  (the library's default is \<^verbatim>\<open>True\<close>).
\<close>

datatype layer =
    Conv2D nat nat nat bool
  | ReLU
  | BatchNorm2D nat
  | BatchNorm1D nat
  | MaxPooling2D nat
  | Dropout real
  | Flatten
  | Linear nat nat bool

text \<open>
  Modelled from the spec: the layer classes ("layer classes" in the spec's list of the
  library's public API) are not among the source files.
  The shape each layer gives to one sample (the batch dimension left out, as in
  \<^verbatim>\<open>get_module_summary(model, input_shape=(1, 28, 28))\<close>). The layer classes are the
  library's; their shape rules are the ones the notebooks rely on: a convolution is
  called with the library's defaults (no padding, stride 1, dilation 1), so a kernel
  of size \<open>k\<close> turns an extent \<open>n\<close> into \<open>n - k + 1\<close>; a pooling of size \<open>k\<close> turns
  \<open>n\<close> into \<open>n div k\<close>; a layer given a channel count it was not declared with fails.
\<close>

fun layer_shape :: "layer \<Rightarrow> nat list \<Rightarrow> error + nat list" where
  "layer_shape (Conv2D cin cout k b) [c, h, w] =
     (if c = cin \<and> 0 < k \<and> k \<le> h \<and> k \<le> w
      then Inr [cout, h - k + 1, w - k + 1] else Inl ShapeError)"
| "layer_shape (Conv2D cin cout k b) s = Inl ShapeError"
| "layer_shape ReLU s = Inr s"
| "layer_shape (BatchNorm2D n) [c, h, w] = (if c = n then Inr [c, h, w] else Inl ShapeError)"
| "layer_shape (BatchNorm2D n) s = Inl ShapeError"
| "layer_shape (BatchNorm1D n) [c] = (if c = n then Inr [c] else Inl ShapeError)"
| "layer_shape (BatchNorm1D n) s = Inl ShapeError"
| "layer_shape (MaxPooling2D k) [c, h, w] =
     (if 0 < k then Inr [c, h div k, w div k] else Inl ShapeError)"
| "layer_shape (MaxPooling2D k) s = Inl ShapeError"
| "layer_shape (Dropout p) s = Inr s"
| "layer_shape Flatten s = Inr [prod_list s]"
| "layer_shape (Linear cin cout b) [c] = (if c = cin then Inr [cout] else Inl ShapeError)"
| "layer_shape (Linear cin cout b) s = Inl ShapeError"

text \<open>\<^verbatim>\<open>nn.Sequential\<close> feeds each layer the output of the one before it.\<close>

fun sequential_shape :: "layer list \<Rightarrow> nat list \<Rightarrow> error + nat list" where
  "sequential_shape [] s = Inr s"
| "sequential_shape (l # ls) s =
     (case layer_shape l s of Inl e \<Rightarrow> Inl e | Inr s' \<Rightarrow> sequential_shape ls s')"

text \<open>
  The model of the MNIST notebook, as declared:
  \<^verbatim>\<open>
  model = nn.Sequential(
      nn.Conv2D(1, 32, 5), nn.ReLU(),
      nn.Conv2D(32, 32, 5, bias=False), nn.BatchNorm2D(32), nn.ReLU(),
      nn.MaxPooling2D(2), nn.Dropout(0.25),

      nn.Conv2D(32, 64, 3), nn.ReLU(),
      nn.Conv2D(64, 64, 3, bias=False), nn.BatchNorm2D(64), nn.ReLU(),
      nn.MaxPooling2D(2), nn.Dropout(0.25),

      nn.Flatten(),
      nn.Linear(576, 256, bias=False), nn.BatchNorm1D(256), nn.ReLU(),
      nn.Linear(256, 128, bias=False), nn.BatchNorm1D(128), nn.ReLU(),
      nn.Linear(128, 84, bias=False), nn.BatchNorm1D(84), nn.ReLU(), nn.Dropout(0.25),
      nn.Linear(84, 10),
  )
  \<close>
\<close>

definition mnist_conv_stack :: "layer list" where
  "mnist_conv_stack =
     [Conv2D 1 32 5 True, ReLU,
      Conv2D 32 32 5 False, BatchNorm2D 32, ReLU,
      MaxPooling2D 2, Dropout 0.25,
      Conv2D 32 64 3 True, ReLU,
      Conv2D 64 64 3 False, BatchNorm2D 64, ReLU,
      MaxPooling2D 2, Dropout 0.25]"

definition mnist_head :: "layer list" where
  "mnist_head =
     [Linear 576 256 False, BatchNorm1D 256, ReLU,
      Linear 256 128 False, BatchNorm1D 128, ReLU,
      Linear 128 84 False, BatchNorm1D 84, ReLU, Dropout 0.25,
      Linear 84 10 True]"

definition mnist_model :: "layer list" where
  "mnist_model = mnist_conv_stack @ [Flatten] @ mnist_head"

text \<open>
  The model of the Iris notebook, declared twice with the same arguments (once as
  \<^verbatim>\<open>model\<close>, once as \<^verbatim>\<open>loaded_model\<close>):
  \<^verbatim>\<open>
  nn.Sequential(
      nn.Linear(in_channels=4, out_channels=16),
      nn.ReLU(),
      nn.Linear(in_channels=16, out_channels=3),
  )
  \<close>
\<close>

definition iris_model :: "layer list" where
  "iris_model = [Linear 4 16 True, ReLU, Linear 16 3 True]"

section \<open>The notebooks as scripts\<close>

text \<open>
  A notebook is its code cells in order, a cell is its statements in order. A statement
  is recorded by what it does outside its own expression:
  \<^item> \<open>Shell\<close>: a shell escape (\<^verbatim>\<open>! pip install ...\<close>);
  \<^item> \<open>Import\<close>: an \<^verbatim>\<open>import\<close> or \<^verbatim>\<open>from ... import\<close>, by module;
  \<^item> \<open>Bind\<close>: an assignment whose right-hand side makes no call (a literal, an
    attribute);
  \<^item> \<open>Ext\<close>: one call of external code (pandas, the tensor library, matplotlib,
    scikit-learn, NumPy, \<^verbatim>\<open>random\<close>, a builtin), one operator applied to tensors or
    one subscript, named as the source writes the callee; a call on the result of
    another call is named by the method alone (\<^verbatim>\<open>.to_int\<close>). A
    statement with several calls gives several entries, arguments before the call that
    takes them. The assignment of a call's result to a name adds no entry;
  \<^item> \<open>SetAttr\<close>: \<^verbatim>\<open>obj.field = True\<close> or \<^verbatim>\<open>obj.field = False\<close>;
  \<^item> \<open>SetItem\<close>: \<^verbatim>\<open>obj[key] = value\<close>;
  \<^item> \<open>For\<close>: a \<^verbatim>\<open>for\<close> loop, by its iterable and the calls of its body;
  \<^item> \<open>Def\<close>: a \<^verbatim>\<open>def\<close>, by its name and body; \<open>ClassDef\<close>: a \<^verbatim>\<open>class\<close>;
  \<^item> \<open>User\<close>: a call of a function the notebook has defined.

  Attribute reads (\<^verbatim>\<open>x.shape\<close>, \<^verbatim>\<open>a.T\<close>, \<^verbatim>\<open>conv1.y\<close>) and the bare name that ends
  a cell to display a value (\<^verbatim>\<open>device\<close>) give no entry. Markdown cells are left out.
  A function body is a list of calls, some of them repeated by a loop: none of the three bodies in
  the notebooks calls a function of the notebook or defines one.
\<close>

datatype block = Call string | Loop string "string list"

datatype stmt =
    Shell string
  | Import string
  | Bind string
  | Ext string
  | SetAttr string string bool
  | SetItem string string
  | For string "string list"
  | Def string "block list"
  | ClassDef string
  | User string

type_synonym cell = "stmt list"
type_synonym notebook = "cell list"

text \<open>One constructor call per declared layer, then \<^verbatim>\<open>nn.Sequential\<close> on the results.\<close>

fun constructor :: "layer \<Rightarrow> string" where
  "constructor (Conv2D cin cout k b) = ''nn.Conv2D''"
| "constructor ReLU = ''nn.ReLU''"
| "constructor (BatchNorm2D n) = ''nn.BatchNorm2D''"
| "constructor (BatchNorm1D n) = ''nn.BatchNorm1D''"
| "constructor (MaxPooling2D k) = ''nn.MaxPooling2D''"
| "constructor (Dropout p) = ''nn.Dropout''"
| "constructor Flatten = ''nn.Flatten''"
| "constructor (Linear cin cout b) = ''nn.Linear''"

definition declare_model :: "layer list \<Rightarrow> stmt list" where
  "declare_model layers = map (\<lambda>l. Ext (constructor l)) layers @ [Ext ''nn.Sequential'']"

subsection \<open>The MNIST notebook\<close>

text \<open>The body of \<^verbatim>\<open>scale\<close>, shown above, as calls.\<close>

definition scale_body :: "block list" where
  "scale_body =
     [Call ''x.mean'', Call ''.to_type'',
      Call ''x.std'', Call ''.to_type'',
      Call ''-'', Call ''/'']"

text \<open>
  \<^verbatim>\<open>
  def plot_history(t1, t2):
      trace1 = history[t1]
      trace2 = history[t2]
      plt.figure(figsize=(10, 3))
      plt.plot(cp.arange(start=1, stop=len(trace1) + 1), trace1, linewidth=1)
      plt.plot(cp.arange(start=1, stop=len(trace2) + 1), trace2, linewidth=1)
  \<close>
\<close>

definition mnist_plot_history_body :: "block list" where
  "mnist_plot_history_body =
     [Call ''history[t1]'',
      Call ''history[t2]'',
      Call ''plt.figure'',
      Call ''len'', Call ''cp.arange'', Call ''plt.plot'',
      Call ''len'', Call ''cp.arange'', Call ''plt.plot'']"

text \<open>
  \<^verbatim>\<open>
  def plot_channels(array, label):
      plt.figure(figsize=(20, 20))
      for i in range(array.shape[0]):
          plt.subplot(10, 8, i + 1)
          image = array[i, :, :]
          plt.imshow(image, vmin=cp.min(image).item(), vmax=cp.max(image).item(), cmap="gray")
          plt.xlabel(f"channel {str(i + 1)}")
          plt.tick_params(left=False, bottom=False, labelleft=False, labelbottom=False)
      plt.show()
  \<close>
\<close>

definition plot_channels_body :: "block list" where
  "plot_channels_body =
     [Call ''plt.figure'',
      Call ''array.shape[0]'', Call ''range'',
      Loop ''range(array.shape[0])''
        [''plt.subplot'',
         ''array[i, :, :]'',
         ''cp.min'', ''.item'', ''cp.max'', ''.item'', ''plt.imshow'',
         ''str'', ''plt.xlabel'',
         ''plt.tick_params''],
      Call ''plt.show'']"

text \<open>
  The last four cells share their statements after the first call (shown for the first
  of them, where \<^verbatim>\<open>conv1 = model.layers[0]\<close> comes before):
  \<^verbatim>\<open>
  out = conv1.y[0].to_cpu()
  out_min = cp.min(out, dim=0)
  out_max = cp.max(out, dim=0)
  out = (out - out_min) / (out_max - out_min)
  plot_channels(out, "channel")
  \<close>
  The other three start from \<^verbatim>\<open>conv2.y[0]\<close>, \<^verbatim>\<open>cp.sum(conv1.w, dim=1)\<close> and
  \<^verbatim>\<open>cp.sum(conv2.w, dim=1)\<close>.
\<close>

definition show_channels :: "string \<Rightarrow> stmt list" where
  "show_channels src =
     [Ext src, Ext ''.to_cpu'',
      Ext ''cp.min'',
      Ext ''cp.max'',
      Ext ''-'', Ext ''-'', Ext ''/'',
      User ''plot_channels'']"

definition mnist_notebook :: notebook where
  "mnist_notebook =
   [[Shell ''pip install -q pandas scikit-learn matplotlib''],
    [Import ''random'', Import ''compyute''],
    [Ext ''cp.backend.gpu_available''],
    [Import ''pandas'',
     Bind ''train_url'',
     Ext ''pd.read_csv'',
     Ext ''train_data.to_numpy'', Ext ''cp.tensor'',
     Bind ''test_url'',
     Ext ''pd.read_csv'',
     Ext ''test_data.to_numpy'', Ext ''cp.tensor'',
     Ext ''cp.preprocessing.split_train_val_test'',
     Ext ''train[:, 1:]'', Ext ''train[:, 0]'', Ext ''.to_int'',
     Ext ''val[:, 1:]'', Ext ''val[:, 0]'', Ext ''.to_int'',
     Ext ''test[:, 1:]'', Ext ''test[:, 0]'', Ext ''.to_int'',
     Ext ''X_train.shape[0]'', Ext ''cp.reshape'', Ext ''.to_float'',
     Ext ''X_val.shape[0]'', Ext ''cp.reshape'', Ext ''.to_float'',
     Ext ''X_test.shape[0]'', Ext ''cp.reshape'', Ext ''.to_float'',
     Def ''scale'' scale_body,
     User ''scale'',
     User ''scale'',
     User ''scale'',
     Ext ''print'', Ext ''print'', Ext ''print'', Ext ''print'', Ext ''print'', Ext ''print''],
    [Import ''compyute''] @ declare_model mnist_model @ [Ext ''model.to_device''],
    [Ext ''cp.nn.utils.get_module_summary'', Ext ''print''],
    [Import ''compyute.nn.trainer'',
     Import ''compyute.nn.trainer.callbacks'',
     Import ''compyute.nn.trainer.callbacks.lr_schedulers'',
     Ext ''model.get_parameters'', Ext ''nn.optimizers.Adam'',
     Ext ''History'',
     Ext ''AdaptiveLrScheduler'',
     Ext ''ProgressBar'', Ext ''Trainer''],
    [Bind ''epochs'',
     Bind ''batch_size'',
     SetAttr ''model'' ''retain_values'' True,
     Ext ''trainer.train''],
    [],
    [Import ''matplotlib.pyplot'',
     Def ''plot_history'' mnist_plot_history_body,
     User ''plot_history''],
    [Ext ''trainer.evaluate_model'', Ext ''print'', Ext ''print''],
    [Import ''sklearn.metrics'', Import ''numpy'', Import ''compyute.nn.utils'',
     Ext ''batched'', Ext ''batched(...)'',
     Ext ''nn.functional.softmax'',
     Ext ''y_test.to_numpy'', Ext ''cp.argmax'', Ext ''.to_numpy'',
     Ext ''cp.unique'', Ext ''.to_numpy'', Ext ''confusion_matrix'',
     Ext ''cp.arange'', Ext ''.to_numpy'',
     Ext ''plt.imshow'',
     Ext ''plt.xlabel'',
     Ext ''plt.ylabel'',
     Ext ''plt.xticks'',
     Ext ''plt.yticks'',
     Ext ''np.ndenumerate'',
     For ''np.ndenumerate(cm)'' [''int'', ''str'', ''plt.text'']],
    [Ext ''len'', Ext ''random.randint'',
     Ext ''X_test[i]'', Ext ''cp.movedim'',
     Ext ''plt.figure'',
     Ext ''plt.imshow'',
     Ext ''plt.tick_params''],
    [Ext ''y_test[i]'', Ext ''.item'', Ext ''print'',
     Ext ''X_test[None, i]'', Ext ''.to_device'',
     SetAttr ''model'' ''retain_values'' True,
     Ext ''model'',
     SetAttr ''model'' ''retain_values'' False,
     Ext ''cp.nn.functional.softmax'', Ext ''[0]'', Ext ''cp.squeeze'',
     Ext ''cp.argmax'', Ext ''cp.squeeze'', Ext ''.item'',
     Ext ''print'',
     Ext ''plt.figure'',
     Ext ''plt.xticks'',
     Ext ''probs.to_numpy'', Ext ''plt.bar'',
     Ext ''plt.xlabel'',
     Ext ''plt.ylabel''],
    [Def ''plot_channels'' plot_channels_body],
    Ext ''model.layers[0]'' # show_channels ''conv1.y[0]'',
    Ext ''model.layers[2]'' # show_channels ''conv2.y[0]'',
    show_channels ''cp.sum'',
    show_channels ''cp.sum'']"

subsection \<open>The Iris notebook\<close>

text \<open>
  Its \<^verbatim>\<open>plot_history\<close> has three more statements than the one of the MNIST notebook:
  \<^verbatim>\<open>plt.xlabel("step")\<close>, \<^verbatim>\<open>plt.ylabel("loss/accuracy")\<close> and \<^verbatim>\<open>plt.legend()\<close>.
  The one subscript assignment of the repository is in its data cell:
  \<^verbatim>\<open>data["variety"] = data["variety"].astype("category").cat.codes\<close>.
\<close>

definition iris_plot_history_body :: "block list" where
  "iris_plot_history_body =
     [Call ''history[t1]'',
      Call ''history[t2]'',
      Call ''plt.figure'',
      Call ''len'', Call ''cp.arange'', Call ''plt.plot'',
      Call ''len'', Call ''cp.arange'', Call ''plt.plot'',
      Call ''plt.xlabel'',
      Call ''plt.ylabel'',
      Call ''plt.legend'']"

definition iris_notebook :: notebook where
  "iris_notebook =
   [[Shell ''pip install -q matplotlib pandas''],
    [Import ''compyute''],
    [Import ''pandas'', Import ''compyute.preprocessing'',
     Bind ''url'',
     Ext ''pd.read_csv'',
     Ext ''data[variety]'', Ext ''.astype'', SetItem ''data'' ''variety'',
     Ext ''data.to_numpy'', Ext ''cp.tensor'', Ext ''.to_float'',
     Ext ''split_train_val_test'',
     Ext ''train[:, :-1]'', Ext ''train[:, -1]'', Ext ''.to_int'',
     Ext ''val[:, :-1]'', Ext ''val[:, -1]'', Ext ''.to_int'',
     Ext ''test[:, :-1]'', Ext ''test[:, -1]'', Ext ''.to_int'',
     Ext ''normalize'',
     Ext ''normalize'',
     Ext ''normalize'',
     Ext ''print'', Ext ''print'', Ext ''print'', Ext ''print'', Ext ''print'', Ext ''print''],
    [Import ''compyute''] @ declare_model iris_model,
    [Ext ''cp.nn.utils.get_module_summary'', Ext ''print''],
    [Import ''compyute.nn.trainer'', Import ''compyute.nn.trainer.callbacks'',
     Ext ''History'',
     Ext ''ProgressBar'',
     Ext ''Trainer''],
    [Ext ''trainer.train''],
    [Import ''matplotlib.pyplot'',
     Def ''plot_history'' iris_plot_history_body,
     User ''plot_history'',
     User ''plot_history''],
    [Ext ''trainer.evaluate_model'', Ext ''print'', Ext ''print''],
    [Ext ''model.get_state_dict'', Ext ''trainer.optimizer.get_state_dict'',
     Ext ''cp.save''],
    [Import ''compyute''] @ declare_model iris_model @
    [Ext ''loaded_model.get_parameters'', Ext ''nn.optimizers.SGD'',
     Ext ''cp.load'',
     Ext ''loaded_state[model]'', Ext ''loaded_model.load_state_dict'',
     Ext ''loaded_state[optimizer]'', Ext ''loaded_optimizer.load_state_dict''],
    [Ext ''cp.tensor'', Ext ''loaded_model'']]"

subsection \<open>The tensor notebook\<close>

definition tensors_notebook :: notebook where
  "tensors_notebook =
   [[Import ''compyute''],
    [Ext ''cp.tensor'', Ext ''print'', Ext ''print'', Ext ''print'', Ext ''print''],
    [Ext ''cp.tensor'', Ext ''print''],
    [Ext ''a.to_type'', Ext ''b.to_float'', Ext ''print'', Ext ''print''],
    [Ext ''cp.tensor'', Ext ''cp.tensor'', Ext ''print'', Ext ''print''],
    [Ext ''c.to_device'', Ext ''c.to_cpu'', Ext ''print'', Ext ''print''],
    [Ext ''+'', Ext ''print'',
     Ext ''@'', Ext ''print'',
     Ext ''cp.sum'', Ext ''print'',
     Bind ''g'', Ext ''print''],
    [Ext ''cp.ones'', Ext ''print'',
     Ext ''cp.random.uniform_int'', Ext ''print'',
     Ext ''cp.random.normal'', Ext ''print'']]"

section \<open>Running a notebook\<close>

text \<open>
  The state of a run: \<open>world\<close> is everything external code owns (tensors, model
  weights, files, figures, installed packages), \<open>attrs\<close> holds the fields the notebook
  has written, \<open>funs\<close> the functions it has defined. External code is a parameter:
  \<open>call\<close> says what a call does to the world, or which error it raises; \<open>trips\<close> says
  how many items an iterable yields; \<open>shell\<close> is the effect of a shell escape, which
  raises no Python exception whatever the command's exit status.

  A run ends at the first error, with that error and the state reached: the notebooks
  have no handler, so there is no other case. Calling a name that has no definition yet
  is Python's \<^verbatim>\<open>NameError\<close>.
\<close>

record 'w env =
  world :: 'w
  attrs :: "string \<times> string \<Rightarrow> bool option"
  funs :: "string \<Rightarrow> block list option"

record 'w outside =
  call :: "string \<Rightarrow> (string \<times> string \<Rightarrow> bool option) \<Rightarrow> 'w \<Rightarrow> error + 'w"
  trips :: "string \<Rightarrow> 'w \<Rightarrow> nat"
  shell :: "string \<Rightarrow> 'w \<Rightarrow> 'w"

type_synonym 'w outcome = "error \<times> 'w env + 'w env"

definition run_call :: "'w outside \<Rightarrow> string \<Rightarrow> 'w env \<Rightarrow> 'w outcome" where
  "run_call L c s =
     (case call L c (attrs s) (world s) of
        Inl e \<Rightarrow> Inl (e, s)
      | Inr w \<Rightarrow> Inr (s\<lparr>world := w\<rparr>))"

fun run_calls :: "'w outside \<Rightarrow> string list \<Rightarrow> 'w env \<Rightarrow> 'w outcome" where
  "run_calls L [] s = Inr s"
| "run_calls L (c # cs) s =
     (case run_call L c s of Inl x \<Rightarrow> Inl x | Inr s' \<Rightarrow> run_calls L cs s')"

fun run_loop :: "'w outside \<Rightarrow> nat \<Rightarrow> string list \<Rightarrow> 'w env \<Rightarrow> 'w outcome" where
  "run_loop L 0 cs s = Inr s"
| "run_loop L (Suc n) cs s =
     (case run_calls L cs s of Inl x \<Rightarrow> Inl x | Inr s' \<Rightarrow> run_loop L n cs s')"

fun run_block :: "'w outside \<Rightarrow> block \<Rightarrow> 'w env \<Rightarrow> 'w outcome" where
  "run_block L (Call c) s = run_call L c s"
| "run_block L (Loop it cs) s = run_loop L (trips L it (world s)) cs s"

fun run_blocks :: "'w outside \<Rightarrow> block list \<Rightarrow> 'w env \<Rightarrow> 'w outcome" where
  "run_blocks L [] s = Inr s"
| "run_blocks L (b # bs) s =
     (case run_block L b s of Inl x \<Rightarrow> Inl x | Inr s' \<Rightarrow> run_blocks L bs s')"

fun run_stmt :: "'w outside \<Rightarrow> stmt \<Rightarrow> 'w env \<Rightarrow> 'w outcome" where
  "run_stmt L (Shell c) s = Inr (s\<lparr>world := shell L c (world s)\<rparr>)"
| "run_stmt L (Import m) s = run_call L (''import '' @ m) s"
| "run_stmt L (Bind x) s = Inr s"
| "run_stmt L (Ext c) s = run_call L c s"
| "run_stmt L (SetAttr obj field b) s = Inr (s\<lparr>attrs := (attrs s)((obj, field) \<mapsto> b)\<rparr>)"
| "run_stmt L (SetItem obj key) s = run_call L (obj @ ''.__setitem__'') s"
| "run_stmt L (For it cs) s = run_loop L (trips L it (world s)) cs s"
| "run_stmt L (Def f body) s = Inr (s\<lparr>funs := (funs s)(f \<mapsto> body)\<rparr>)"
| "run_stmt L (ClassDef c) s = Inr s"
| "run_stmt L (User f) s =
     (case funs s f of None \<Rightarrow> Inl (NameError, s) | Some body \<Rightarrow> run_blocks L body s)"

fun run_stmts :: "'w outside \<Rightarrow> stmt list \<Rightarrow> 'w env \<Rightarrow> 'w outcome" where
  "run_stmts L [] s = Inr s"
| "run_stmts L (st # sts) s =
     (case run_stmt L st s of Inl x \<Rightarrow> Inl x | Inr s' \<Rightarrow> run_stmts L sts s')"

text \<open>Running all cells from top to bottom.\<close>

definition run_notebook :: "'w outside \<Rightarrow> notebook \<Rightarrow> 'w env \<Rightarrow> 'w outcome" where
  "run_notebook L nb s = run_stmts L (concat nb) s"

text \<open>
  \<open>fails_at L e s\<close>: in state \<open>s\<close> some external call raises \<open>e\<close>.
  \<open>scoped ds sts\<close>: every function called in \<open>sts\<close> is among \<open>ds\<close> or defined earlier
  in \<open>sts\<close>.
\<close>

definition fails_at :: "'w outside \<Rightarrow> error \<Rightarrow> 'w env \<Rightarrow> bool" where
  "fails_at L e s = (\<exists>c. call L c (attrs s) (world s) = Inl e)"

fun scoped :: "string list \<Rightarrow> stmt list \<Rightarrow> bool" where
  "scoped ds [] = True"
| "scoped ds (Def f body # sts) = scoped (f # ds) sts"
| "scoped ds (User f # sts) = (f \<in> set ds \<and> scoped ds sts)"
| "scoped ds (st # sts) = scoped ds sts"

text \<open>
  An outside in which exactly the calls named \<open>c0\<close> fail, every loop runs once and the
  world has nothing to record; and the state before the first cell.
\<close>

definition failing_at :: "string \<Rightarrow> unit outside" where
  "failing_at c0 =
     \<lparr>call = (\<lambda>c a w. if c = c0 then Inl (LibError c0) else Inr w),
      trips = (\<lambda>it w. 1),
      shell = (\<lambda>c w. w)\<rparr>"

definition start :: "unit env" where
  "start = \<lparr>world = (), attrs = (\<lambda>k. None), funs = (\<lambda>f. None)\<rparr>"

text \<open>
  The calls a run makes, in order, when nothing fails and every loop yields \<open>t\<close> items:
  the calls of the statements, with the body of a notebook function in place of each of
  its calls and \<open>t\<close> copies of the body of each loop.
\<close>

fun block_script :: "nat \<Rightarrow> block \<Rightarrow> string list" where
  "block_script t (Call c) = [c]"
| "block_script t (Loop it cs) = concat (replicate t cs)"

fun script :: "nat \<Rightarrow> (string \<times> block list) list \<Rightarrow> stmt list \<Rightarrow> string list" where
  "script t ds [] = []"
| "script t ds (Shell c # sts) = script t ds sts"
| "script t ds (Import m # sts) = (''import '' @ m) # script t ds sts"
| "script t ds (Bind x # sts) = script t ds sts"
| "script t ds (Ext c # sts) = c # script t ds sts"
| "script t ds (SetAttr obj field b # sts) = script t ds sts"
| "script t ds (SetItem obj key # sts) = (obj @ ''.__setitem__'') # script t ds sts"
| "script t ds (For it cs # sts) = concat (replicate t cs) @ script t ds sts"
| "script t ds (Def f body # sts) = script t ((f, body) # ds) sts"
| "script t ds (ClassDef c # sts) = script t ds sts"
| "script t ds (User f # sts) =
     (case map_of ds f of None \<Rightarrow> [] | Some body \<Rightarrow> concat (map (block_script t) body))
     @ script t ds sts"

text \<open>
  An outside that counts the calls made so far in its world and fails exactly the call
  number \<open>k\<close> (counting from 0), with an error that names the callee; every loop
  yields \<open>t\<close> items.
\<close>

definition fail_nth :: "nat \<Rightarrow> nat \<Rightarrow> nat outside" where
  "fail_nth k t =
     \<lparr>call = (\<lambda>c a n. if n = k then Inl (LibError c) else Inr (Suc n)),
      trips = (\<lambda>it n. t),
      shell = (\<lambda>c n. n)\<rparr>"

definition nth_outcome :: "nat \<Rightarrow> string list \<Rightarrow> nat env \<Rightarrow> nat outcome \<Rightarrow> bool" where
  "nth_outcome k xs s r =
     (if k < world s + length xs
      then (\<exists>s'. r = Inl (LibError (xs ! (k - world s)), s') \<and> world s' = k)
      else (\<exists>s'. r = Inr s' \<and> world s' = world s + length xs))"

definition count_start :: "nat env" where
  "count_start = \<lparr>world = 0, attrs = (\<lambda>k. None), funs = (\<lambda>f. None)\<rparr>"

section \<open>What the notebooks define and write\<close>

text \<open>
  A statement is glue when it defines nothing and writes to no object: it is an
  import, a shell escape, a binding, a call or a loop of calls.
\<close>

fun is_glue :: "stmt \<Rightarrow> bool" where
  "is_glue (Def f body) = False"
| "is_glue (ClassDef c) = False"
| "is_glue (SetAttr obj field b) = False"
| "is_glue (SetItem obj key) = False"
| "is_glue st = True"

definition glue_only :: "notebook \<Rightarrow> bool" where
  "glue_only nb = list_all is_glue (concat nb)"

definition own_code :: "notebook \<Rightarrow> stmt list" where
  "own_code nb = filter (\<lambda>st. \<not> is_glue st) (concat nb)"

text \<open>
  A statement is external when it is an import, a shell escape, a binding or one call
  of external code; the statements that are not are the notebook's own definitions and
  writes, the calls of its own functions and its \<^verbatim>\<open>for\<close> statements.
\<close>

fun is_external :: "stmt \<Rightarrow> bool" where
  "is_external (Shell c) = True"
| "is_external (Import m) = True"
| "is_external (Bind x) = True"
| "is_external (Ext c) = True"
| "is_external st = False"

definition beyond_external :: "notebook \<Rightarrow> stmt list" where
  "beyond_external nb = filter (\<lambda>st. \<not> is_external st) (concat nb)"

fun class_of :: "stmt \<Rightarrow> string list" where
  "class_of (ClassDef c) = [c]"
| "class_of st = []"

definition own_classes :: "notebook \<Rightarrow> string list" where
  "own_classes nb = concat (map class_of (concat nb))"

section \<open>The five steps\<close>

text \<open>
  The steps of a training notebook, and the statements that perform them: fetching is
  \<^verbatim>\<open>pd.read_csv\<close>; reshaping and normalizing are \<^verbatim>\<open>cp.reshape\<close>, \<^verbatim>\<open>normalize\<close>
  and the notebook's \<^verbatim>\<open>scale\<close>; declaring the layer sequence is \<^verbatim>\<open>nn.Sequential\<close>;
  handing the model and data to the trainer is \<^verbatim>\<open>Trainer(...)\<close>, \<^verbatim>\<open>trainer.train\<close>
  and \<^verbatim>\<open>trainer.evaluate_model\<close>; plotting is every \<^verbatim>\<open>plt.\<close> call and the
  notebook's \<^verbatim>\<open>plot_history\<close> and \<^verbatim>\<open>plot_channels\<close>. A script without branches
  runs its statements in the order written, so the steps of a run are the steps of the
  statements in that order.
\<close>

datatype phase = Fetch | Prepare | Declare | Train | Plot

definition phase_of :: "string \<Rightarrow> phase list" where
  "phase_of c =
     (if c = ''pd.read_csv'' then [Fetch]
      else if c \<in> set [''cp.reshape'', ''normalize'', ''scale''] then [Prepare]
      else if c = ''nn.Sequential'' then [Declare]
      else if c \<in> set [''Trainer'', ''trainer.train'', ''trainer.evaluate_model''] then [Train]
      else if take 4 c = ''plt.'' then [Plot]
      else if c \<in> set [''plot_history'', ''plot_channels''] then [Plot]
      else [])"

fun step_of :: "stmt \<Rightarrow> phase list" where
  "step_of (Ext c) = phase_of c"
| "step_of (User f) = phase_of f"
| "step_of (For it cs) = concat (map phase_of cs)"
| "step_of st = []"

definition steps :: "notebook \<Rightarrow> phase list" where
  "steps nb = concat (map step_of (concat nb))"

fun rank :: "phase \<Rightarrow> nat" where
  "rank Fetch = 1"
| "rank Prepare = 2"
| "rank Declare = 3"
| "rank Train = 4"
| "rank Plot = 5"

text \<open>No later step runs before an earlier one: the ranks never decrease.\<close>

definition in_fixed_order :: "notebook \<Rightarrow> bool" where
  "in_fixed_order nb = sorted (map rank (steps nb))"

text \<open>The steps in the order in which each one first happens.\<close>

definition first_seen :: "'a list \<Rightarrow> 'a list" where
  "first_seen xs = rev (remdups (rev xs))"

section \<open>Checkpoints\<close>

text \<open>
  Modelled from the spec: \<^verbatim>\<open>cp.save\<close>, \<^verbatim>\<open>cp.load\<close>, \<^verbatim>\<open>get_state_dict\<close> and
  \<^verbatim>\<open>load_state_dict\<close> are not among the source files. The spec names them as
  "save/load of parameter dictionaries"; the notebook says "Models are saved by
  serializing the state dictionary of the model and the optimizer" and "To load a saved
  model, you have to instanciate a new model and load the state dictionary". A state
  dictionary maps parameter names to tensors; saving stores an object under a path,
  loading returns the object stored under the path and fails when there is none;
  loading a state dictionary into a model or an optimizer replaces its parameters.
\<close>

type_synonym 'a state_dict = "(string \<times> 'a tensor) list"

record 'a module =
  layers :: "layer list"
  parameters :: "'a state_dict"

record 'a optimizer =
  opt_name :: string
  opt_state :: "'a state_dict"

definition get_state_dict :: "'a module \<Rightarrow> 'a state_dict" where
  "get_state_dict m = parameters m"

definition load_state_dict :: "'a module \<Rightarrow> 'a state_dict \<Rightarrow> 'a module" where
  "load_state_dict m sd = m\<lparr>parameters := sd\<rparr>"

definition opt_get_state_dict :: "'a optimizer \<Rightarrow> 'a state_dict" where
  "opt_get_state_dict opt = opt_state opt"

definition opt_load_state_dict :: "'a optimizer \<Rightarrow> 'a state_dict \<Rightarrow> 'a optimizer" where
  "opt_load_state_dict opt sd = opt\<lparr>opt_state := sd\<rparr>"

type_synonym 'a checkpoint = "(string \<times> 'a state_dict) list"
type_synonym 'a files = "string \<Rightarrow> 'a checkpoint option"

definition cp_save :: "'a checkpoint \<Rightarrow> string \<Rightarrow> 'a files \<Rightarrow> 'a files" where
  "cp_save obj path fs = fs(path \<mapsto> obj)"

definition cp_load :: "string \<Rightarrow> 'a files \<Rightarrow> error + 'a checkpoint" where
  "cp_load path fs = (case fs path of None \<Rightarrow> Inl (LibError path) | Some obj \<Rightarrow> Inr obj)"

text \<open>A dictionary subscript \<^verbatim>\<open>d[key]\<close> raises \<^verbatim>\<open>KeyError\<close> for a missing key.\<close>

definition dict_get :: "(string \<times> 'v) list \<Rightarrow> string \<Rightarrow> error + 'v" where
  "dict_get d key = (case map_of d key of None \<Rightarrow> Inl KeyError | Some v \<Rightarrow> Inr v)"

text \<open>
  The two cells of the Iris notebook:
  \<^verbatim>\<open>
  state = {
      "model": model.get_state_dict(),
      "optimizer": trainer.optimizer.get_state_dict()
  }
  cp.save(state, "iris_model.cp")
  \<close>
  and, with \<open>fresh\<close> the parameters the new model is constructed with:
  \<^verbatim>\<open>
  loaded_model = nn.Sequential(
      nn.Linear(in_channels=4, out_channels=16),
      nn.ReLU(),
      nn.Linear(in_channels=16, out_channels=3),
  )
  loaded_optimizer = nn.optimizers.SGD(loaded_model.get_parameters())

  loaded_state = cp.load("iris_model.cp")
  loaded_model.load_state_dict(loaded_state["model"])
  loaded_optimizer.load_state_dict(loaded_state["optimizer"])
  \<close>
\<close>

definition save_cell :: "'a module \<Rightarrow> 'a optimizer \<Rightarrow> 'a files \<Rightarrow> 'a files" where
  "save_cell model optimizer fs =
     (let state = [(''model'', get_state_dict model),
                   (''optimizer'', opt_get_state_dict optimizer)]
      in cp_save state ''iris_model.cp'' fs)"

definition load_cell :: "'a state_dict \<Rightarrow> 'a files \<Rightarrow> error + ('a module \<times> 'a optimizer)" where
  "load_cell fresh fs =
     (let loaded_model = \<lparr>layers = iris_model, parameters = fresh\<rparr>;
          loaded_optimizer = \<lparr>opt_name = ''SGD'', opt_state = []\<rparr>
      in then_do (cp_load ''iris_model.cp'' fs) (\<lambda>loaded_state.
         then_do (dict_get loaded_state ''model'') (\<lambda>model_state.
         (let loaded_model = load_state_dict loaded_model model_state
          in then_do (dict_get loaded_state ''optimizer'') (\<lambda>optimizer_state.
             Inr (loaded_model, opt_load_state_dict loaded_optimizer optimizer_state))))))"

section \<open>Shape consistency of the MNIST model\<close>

lemma sequential_shape_append:
  "sequential_shape (ls @ ms) s =
     (case sequential_shape ls s of Inl e \<Rightarrow> Inl e | Inr s' \<Rightarrow> sequential_shape ms s')"
  by (induction ls arbitrary: s) (auto split: sum.splits)

lemma mnist_conv_stack_shape:
  "sequential_shape mnist_conv_stack [1, 28, 28] = Inr [64, 3, 3]"
  by (simp add: mnist_conv_stack_def)

lemma mnist_head_shape: "sequential_shape mnist_head [576] = Inr [10]"
  by (simp add: mnist_head_def)

text \<open>
  C8. For a \<open>(1, 28, 28)\<close> input the layers before \<^verbatim>\<open>Flatten\<close> give a \<open>(64, 3, 3)\<close>
  feature map, \<^verbatim>\<open>Flatten\<close> gives exactly 576 features, 576 is the \<^verbatim>\<open>in_channels\<close> of
  the first \<^verbatim>\<open>Linear\<close> layer, and the whole declared sequence accepts the input and
  ends in 10 outputs: no layer is handed a shape it rejects.
\<close>

theorem mnist_model_shape_consistent:
  "sequential_shape mnist_conv_stack [1, 28, 28] = Inr [64, 3, 3]
   \<and> sequential_shape (mnist_conv_stack @ [Flatten]) [1, 28, 28] = Inr [576]
   \<and> hd mnist_head = Linear 576 256 False
   \<and> sequential_shape mnist_model [1, 28, 28] = Inr [10]"
proof -
  note conv = mnist_conv_stack_shape
  have flat: "sequential_shape (mnist_conv_stack @ [Flatten]) [1, 28, 28] = Inr [576]"
    unfolding sequential_shape_append conv by simp
  have first: "hd mnist_head = Linear 576 256 False"
    by (simp add: mnist_head_def)
  have "sequential_shape mnist_model [1, 28, 28]
        = sequential_shape ((mnist_conv_stack @ [Flatten]) @ mnist_head) [1, 28, 28]"
    by (simp add: mnist_model_def)
  also have "\<dots> = sequential_shape mnist_head [576]"
    unfolding sequential_shape_append [of "mnist_conv_stack @ [Flatten]"] flat by simp
  also have "\<dots> = Inr [10]"
    by (rule mnist_head_shape)
  finally show ?thesis
    using conv flat first by blast
qed

section \<open>The reshape step\<close>

lemma reshape_images_ok:
  assumes "shape X = [B, 784]" "0 < B"
  shows "reshape_images A X
         = Inr \<lparr>shape = [B, 1, 28, 28], elems = map (el_cast A Float32) (elems X)\<rparr>"
  using assms
  by (simp add: reshape_images_def shape0_def then_do_def np_reshape_def Let_def
      to_float_def map_elems_def)

lemma length_row:
  assumes "length xs = B * w" "i < B"
  shows "length (take w (drop (i * w) xs)) = w"
proof -
  from assms(2) have "Suc i * w \<le> B * w"
    by (intro mult_le_mono1) simp
  then have "w \<le> B * w - i * w"
    by simp
  then show ?thesis
    using assms(1) by simp
qed

text \<open>
  C7. For a well-formed feature tensor with \<open>B \<ge> 1\<close> rows of 784
  pixels the reshape step succeeds with shape \<open>(B, 1, 28, 28)\<close>: the \<open>-1\<close> resolves to 28,
  the elements keep their order (cast to float), and image \<open>i\<close> of the result has the
  \<open>1 * 28 * 28 = 784\<close> elements of row \<open>i\<close> of the input, in the same order.
\<close>

theorem reshape_images_shape:
  assumes wf: "wf_tensor X" and sh: "shape X = [B, 784]" and B: "0 < B"
  shows "\<exists>Y. reshape_images A X = Inr Y \<and> shape Y = [B, 1, 28, 28] \<and> wf_tensor Y
           \<and> elems Y = map (el_cast A Float32) (elems X)
           \<and> (\<forall>i<B. \<exists>Xi Yi. getitem0 X (int i) = Inr Xi \<and> getitem0 Y (int i) = Inr Yi
                 \<and> shape Xi = [784] \<and> shape Yi = [1, 28, 28]
                 \<and> length (elems Xi) = 784 \<and> length (elems Yi) = 1 * 28 * 28
                 \<and> elems Yi = map (el_cast A Float32) (elems Xi))"
proof -
  let ?Y = "\<lparr>shape = [B, 1, 28, 28], elems = map (el_cast A Float32) (elems X)\<rparr>"
  have run: "reshape_images A X = Inr ?Y"
    using sh B by (rule reshape_images_ok)
  have len: "length (elems X) = B * 784"
    using wf sh by (simp add: wf_tensor_def)
  have wfY: "wf_tensor ?Y"
    using len by (simp add: wf_tensor_def)
  have rows: "\<exists>Xi Yi. getitem0 X (int i) = Inr Xi \<and> getitem0 ?Y (int i) = Inr Yi
                 \<and> shape Xi = [784] \<and> shape Yi = [1, 28, 28]
                 \<and> length (elems Xi) = 784 \<and> length (elems Yi) = 1 * 28 * 28
                 \<and> elems Yi = map (el_cast A Float32) (elems Xi)" if "i < B" for i
  proof -
    have l: "length (take 784 (drop (i * 784) (elems X))) = 784"
      using len that by (rule length_row)
    show ?thesis
      using that sh l by (simp add: getitem0_def Let_def take_map drop_map)
  qed
  from run wfY rows show ?thesis
    by simp
qed

theorem reshape_images_shape_witness:
  "\<exists>Y. reshape_images symbolic \<lparr>shape = [1, 784], elems = replicate 784 (Num 0)\<rparr> = Inr Y
     \<and> shape Y = [1, 1, 28, 28] \<and> wf_tensor Y
     \<and> elems Y = map (Cast Float32) (replicate 784 (Num 0))"
proof -
  let ?X = "\<lparr>shape = [1, 784], elems = replicate 784 (Num 0)\<rparr>"
  have wf: "wf_tensor ?X"
    by (simp add: wf_tensor_def)
  have sh: "shape ?X = [1, 784]"
    by simp
  from reshape_images_shape [OF wf sh, of symbolic] show ?thesis
    by (auto simp: symbolic_def)
qed

section \<open>The scale helper\<close>

lemma frame_trans: "frame h h1 \<Longrightarrow> frame h1 h2 \<Longrightarrow> frame h h2"
  by (simp add: frame_def)

lemma frameD: "frame h h' \<Longrightarrow> lookup h a = Some v \<Longrightarrow> lookup h' a = Some v"
  by (simp add: frame_def)

lemma map_elems_scalar: "map_elems f (scalar c) = scalar (f c)"
  by (simp add: map_elems_def scalar_def)

lemma map_elems_comp: "map_elems f (map_elems g x) = map_elems (\<lambda>v. f (g v)) x"
  by (simp add: map_elems_def)

lemma scale_run:
  assumes L: "numpy_like L A" and x: "lookup h x = Some v"
  shows "\<exists>h' r. scale L h x = Inr (h', r) \<and> frame h h'
           \<and> lookup h' r
               = Some (map_elems (\<lambda>e. el_div A e (el_cast A Float32 (el_std A (elems v))))
                        (map_elems (\<lambda>e. el_sub A e (el_cast A Float32 (el_mean A (elems v)))) v))"
proof -
  from L have mean: "reduces (t_mean L) (el_mean A)" and std: "reduces (t_std L) (el_std A)"
    and cast: "casts (t_to_type L) (el_cast A)"
    and sub: "broadcasts (t_sub L) (el_sub A)" and dv: "broadcasts (t_truediv L) (el_div A)"
    by (simp_all add: numpy_like_def)
  let ?m = "el_mean A (elems v)" and ?s = "el_std A (elems v)"
  let ?cm = "el_cast A Float32 ?m" and ?cs = "el_cast A Float32 ?s"
  from mean x obtain h1 m where 1: "t_mean L h x = Inr (h1, m)"
    "lookup h1 m = Some (scalar ?m)" "frame h h1"
    unfolding reduces_def by blast
  from cast 1(2) obtain h2 mean_px where 2: "t_to_type L h1 m Float32 = Inr (h2, mean_px)"
    "lookup h2 mean_px = Some (scalar ?cm)" "frame h1 h2"
    unfolding casts_def map_elems_scalar [symmetric] by blast
  have x2: "lookup h2 x = Some v"
    using x 1(3) 2(3) by (blast intro: frameD)
  from std x2 obtain h3 s where 3: "t_std L h2 x = Inr (h3, s)"
    "lookup h3 s = Some (scalar ?s)" "frame h2 h3"
    unfolding reduces_def by blast
  from cast 3(2) obtain h4 std_px where 4: "t_to_type L h3 s Float32 = Inr (h4, std_px)"
    "lookup h4 std_px = Some (scalar ?cs)" "frame h3 h4"
    unfolding casts_def map_elems_scalar [symmetric] by blast
  have x4: "lookup h4 x = Some v" and m4: "lookup h4 mean_px = Some (scalar ?cm)"
    using x2 2(2) 3(3) 4(3) by (blast intro: frameD)+
  from sub x4 m4 obtain h5 d where 5: "t_sub L h4 x mean_px = Inr (h5, d)"
    "lookup h5 d = Some (map_elems (\<lambda>e. el_sub A e ?cm) v)" "frame h4 h5"
    unfolding broadcasts_def by blast
  have s5: "lookup h5 std_px = Some (scalar ?cs)"
    using 4(2) 5(3) by (blast intro: frameD)
  from dv 5(2) s5 obtain h6 q where 6: "t_truediv L h5 d std_px = Inr (h6, q)"
    "lookup h6 q = Some (map_elems (\<lambda>e. el_div A e ?cs) (map_elems (\<lambda>e. el_sub A e ?cm) v))"
    "frame h5 h6"
    unfolding broadcasts_def by blast
  have run: "scale L h x = Inr (h6, q)"
    by (simp add: scale_def then_do_def 1(1) 2(1) 3(1) 4(1) 5(1) 6(1))
  have fr: "frame h h6"
    using 1(3) 2(3) 3(3) 4(3) 5(3) 6(3) by (blast intro: frame_trans)
  from run fr 6(2) show ?thesis
    by blast
qed

lemma scale_spec_unfold:
  "scale_spec A v
   = map_elems (\<lambda>e. el_div A e (el_cast A Float32 (el_std A (elems v))))
       (map_elems (\<lambda>e. el_sub A e (el_cast A Float32 (el_mean A (elems v)))) v)"
  by (simp add: scale_spec_def Let_def map_elems_comp)

text \<open>
  C1. With a library whose mean and standard deviation reduce over all elements, whose
  cast and scalar operators work element by element, and whose operations leave the
  objects of the store unchanged, \<^verbatim>\<open>scale(x)\<close> returns for every tensor \<open>x\<close> in the store
  a tensor holding \<open>(x - mean(x)) / std(x)\<close> with both statistics cast to \<^verbatim>\<open>float32\<close>,
  and \<open>x\<close> (as every other object of the store) is as before the call.
\<close>

theorem scale_standardizes:
  assumes L: "numpy_like L A" and x: "lookup h x = Some v"
  shows "\<exists>h' r. scale L h x = Inr (h', r) \<and> lookup h' r = Some (scale_spec A v)
           \<and> lookup h' x = Some v \<and> frame h h'"
proof -
  from scale_run [OF L x] obtain h' r where
    run: "scale L h x = Inr (h', r)" and fr: "frame h h'"
    and val: "lookup h' r = Some (scale_spec A v)"
    unfolding scale_spec_unfold by blast
  from fr x have "lookup h' x = Some v"
    by (rule frameD)
  with run val fr show ?thesis
    by blast
qed

lemma frame_alloc: "frame h (fst (alloc h v))"
  by (simp add: frame_def alloc_def lookup_def nth_append split: if_splits)

lemma lookup_alloc: "lookup (h @ [v]) (length h) = Some v"
  by (simp add: lookup_def)

lemma fresh_lib_numpy_like: "numpy_like (fresh_lib A) A"
  unfolding numpy_like_def reduces_def casts_def broadcasts_def
  using frame_alloc [unfolded alloc_def]
  by (auto simp: fresh_lib_def with_tensor_def with_scalar_def alloc_def lookup_alloc scalar_def)

theorem scale_standardizes_witness:
  "\<exists>h' r. scale (fresh_lib symbolic) [\<lparr>shape = [2], elems = [Num 1, Num 3]\<rparr>] 0 = Inr (h', r)
     \<and> lookup h' r = Some \<lparr>shape = [2], elems =
          [Div (Sub (Num 1) (Cast Float32 (Mean [Num 1, Num 3]))) (Cast Float32 (Std [Num 1, Num 3])),
           Div (Sub (Num 3) (Cast Float32 (Mean [Num 1, Num 3]))) (Cast Float32 (Std [Num 1, Num 3]))]\<rparr>
     \<and> lookup h' 0 = Some \<lparr>shape = [2], elems = [Num 1, Num 3]\<rparr>"
proof -
  let ?v = "\<lparr>shape = [2], elems = [Num 1, Num 3]\<rparr>"
  have x: "lookup [?v] 0 = Some ?v"
    by (simp add: lookup_def)
  have spec: "scale_spec symbolic ?v = \<lparr>shape = [2], elems =
          [Div (Sub (Num 1) (Cast Float32 (Mean [Num 1, Num 3]))) (Cast Float32 (Std [Num 1, Num 3])),
           Div (Sub (Num 3) (Cast Float32 (Mean [Num 1, Num 3]))) (Cast Float32 (Std [Num 1, Num 3]))]\<rparr>"
    by (simp add: scale_spec_def map_elems_def symbolic_def Let_def)
  from scale_standardizes [OF fresh_lib_numpy_like x, of symbolic] show ?thesis
    unfolding spec by blast
qed

section \<open>The random test image\<close>

lemma scale_value_ok:
  assumes "numpy_like L A"
  shows "scale_value L X = Inr (scale_spec A X)"
proof -
  have "lookup [X] 0 = Some X"
    by (simp add: lookup_def)
  from scale_run [OF assms this] obtain h' r where
    "scale L [X] 0 = Inr (h', r)" "lookup h' r = Some (scale_spec A X)"
    unfolding scale_spec_unfold by blast
  then show ?thesis
    by (simp add: scale_value_def then_do_def)
qed

lemma prepare_part_ok:
  assumes "numpy_like L A" "shape part = [B, 785]" "0 < B"
  shows "\<exists>X y. prepare_part L A part = Inr (X, y) \<and> shape X = [B, 1, 28, 28] \<and> shape y = [B]"
proof -
  obtain X0 where X0: "cols_from 1 part = Inr X0" "shape X0 = [B, 784]"
    using assms(2) by (simp add: cols_from_def)
  obtain y0 where y0: "col 0 part = Inr y0" "shape y0 = [B]"
    using assms(2) by (simp add: col_def)
  let ?X1 = "\<lparr>shape = [B, 1, 28, 28], elems = map (el_cast A Float32) (elems X0)\<rparr>"
  from X0(2) assms(3) have X1: "reshape_images A X0 = Inr ?X1"
    by (rule reshape_images_ok)
  have sc: "scale_value L ?X1 = Inr (scale_spec A ?X1)"
    using assms(1) by (rule scale_value_ok)
  have "shape (scale_spec A ?X1) = [B, 1, 28, 28]"
    by (simp add: scale_spec_def Let_def map_elems_def)
  then show ?thesis
    using X0(1) y0 X1 sc
    by (simp add: prepare_part_def then_do_def map_elems_def to_int_def)
qed

text \<open>
  C10. For a test set with \<open>B \<ge> 1\<close> rows (label and 784 pixels each) the data cell yields
  \<^verbatim>\<open>X_test\<close> and \<^verbatim>\<open>y_test\<close> of length \<open>B\<close>; whatever the generator draws,
  \<^verbatim>\<open>random.randint(0, len(X_test) - 1)\<close> returns an \<open>i\<close> with \<open>0 \<le> i < len(X_test)\<close>, and
  \<^verbatim>\<open>X_test[i]\<close> and \<^verbatim>\<open>y_test[i]\<close> both succeed.
\<close>

theorem random_index_in_bounds:
  assumes L: "numpy_like L A" and sh: "shape test = [B, 785]" and B: "0 < B"
  shows "\<exists>X_test y_test. prepare_part L A test = Inr (X_test, y_test)
           \<and> len_t X_test = Inr B \<and> len_t y_test = Inr B
           \<and> (\<exists>i image label. randint 0 (int B - 1) r = Inr i \<and> 0 \<le> i \<and> i < int B
                 \<and> pick_image r X_test y_test = Inr (i, image, label))"
proof -
  from prepare_part_ok [OF L sh B] obtain X y where
    p: "prepare_part L A test = Inr (X, y)" and X: "shape X = [B, 1, 28, 28]"
    and y: "shape y = [B]"
    by blast
  let ?i = "int r mod int B"
  have i: "0 \<le> ?i" "?i < int B"
    using B by simp_all
  have draw: "randint 0 (int B - 1) r = Inr ?i"
    using B by (simp add: randint_def)
  have lens: "len_t X = Inr B" "len_t y = Inr B"
    using X y by (simp_all add: len_t_def)
  have "\<exists>image label. pick_image r X y = Inr (?i, image, label)"
    using X y i draw by (simp add: pick_image_def then_do_def len_t_def getitem0_def Let_def)
  with p lens draw i show ?thesis
    by blast
qed

theorem random_index_in_bounds_witness:
  "\<exists>X_test y_test.
      prepare_part (fresh_lib symbolic) symbolic
        \<lparr>shape = [1, 785], elems = replicate 785 (Num 0)\<rparr> = Inr (X_test, y_test)
      \<and> len_t X_test = Inr 1 \<and> len_t y_test = Inr 1
      \<and> (\<exists>i image label. randint 0 (int 1 - 1) 5 = Inr i \<and> 0 \<le> i \<and> i < int 1
            \<and> pick_image 5 X_test y_test = Inr (i, image, label))"
proof -
  have sh: "shape \<lparr>shape = [1, 785], elems = replicate 785 (Num 0)\<rparr> = [1, 785]"
    by simp
  from random_index_in_bounds [OF fresh_lib_numpy_like sh, where r = 5] show ?thesis
    by simp
qed

section \<open>Own functions and field writes\<close>

lemmas notebook_defs =
  mnist_notebook_def iris_notebook_def tensors_notebook_def declare_model_def
  mnist_model_def mnist_conv_stack_def mnist_head_def iris_model_def
  show_channels_def

text \<open>
  The MNIST notebook is not glue only: it defines \<^verbatim>\<open>scale\<close> and assigns to
  \<^verbatim>\<open>model.retain_values\<close>.
\<close>

theorem glue_only_counterexample: "\<not> glue_only mnist_notebook"
  by (simp add: glue_only_def notebook_defs)

text \<open>
  C2, as the code has it. No notebook defines a class. The statements that define or
  write are exactly: in the MNIST notebook the definitions of \<^verbatim>\<open>scale\<close>,
  \<^verbatim>\<open>plot_history\<close> and \<^verbatim>\<open>plot_channels\<close> and three assignments to
  \<^verbatim>\<open>model.retain_values\<close>; in the Iris notebook the assignment to the column
  \<^verbatim>\<open>data["variety"]\<close> and the definition of \<^verbatim>\<open>plot_history\<close>; in the tensor
  notebook none. Besides these, the statements that are not an import, a shell escape,
  a binding or a call of external code are exactly the calls of these functions (in the
  MNIST notebook \<^verbatim>\<open>scale\<close> three times, \<^verbatim>\<open>plot_history\<close> once and
  \<^verbatim>\<open>plot_channels\<close> four times; in the Iris notebook \<^verbatim>\<open>plot_history\<close> twice) and
  the one \<^verbatim>\<open>for\<close> statement of the MNIST notebook, over \<^verbatim>\<open>np.ndenumerate(cm)\<close>,
  whose body calls external code.
\<close>

theorem own_code_of_notebooks:
  "own_classes mnist_notebook = [] \<and> own_classes iris_notebook = []
   \<and> own_classes tensors_notebook = []
   \<and> own_code mnist_notebook
       = [Def ''scale'' scale_body,
          SetAttr ''model'' ''retain_values'' True,
          Def ''plot_history'' mnist_plot_history_body,
          SetAttr ''model'' ''retain_values'' True,
          SetAttr ''model'' ''retain_values'' False,
          Def ''plot_channels'' plot_channels_body]
   \<and> own_code iris_notebook
       = [SetItem ''data'' ''variety'', Def ''plot_history'' iris_plot_history_body]
   \<and> own_code tensors_notebook = []
   \<and> beyond_external mnist_notebook
       = [Def ''scale'' scale_body,
          User ''scale'', User ''scale'', User ''scale'',
          SetAttr ''model'' ''retain_values'' True,
          Def ''plot_history'' mnist_plot_history_body,
          User ''plot_history'',
          For ''np.ndenumerate(cm)'' [''int'', ''str'', ''plt.text''],
          SetAttr ''model'' ''retain_values'' True,
          SetAttr ''model'' ''retain_values'' False,
          Def ''plot_channels'' plot_channels_body,
          User ''plot_channels'', User ''plot_channels'',
          User ''plot_channels'', User ''plot_channels'']
   \<and> beyond_external iris_notebook
       = [SetItem ''data'' ''variety'',
          Def ''plot_history'' iris_plot_history_body,
          User ''plot_history'', User ''plot_history'']
   \<and> beyond_external tensors_notebook = []"
  by (simp add: own_classes_def own_code_def beyond_external_def notebook_defs)

section \<open>The order of the steps\<close>

text \<open>
  The Iris notebook declares the layer sequence a second time (\<^verbatim>\<open>loaded_model\<close>) after
  it has plotted, and evaluates with the trainer after plotting.
\<close>

theorem fixed_order_counterexample: "\<not> in_fixed_order iris_notebook"
  by (simp add: in_fixed_order_def steps_def phase_of_def notebook_defs)

lemma mnist_repeats_a_step: "\<not> in_fixed_order mnist_notebook"
  by (simp add: in_fixed_order_def steps_def phase_of_def notebook_defs)

text \<open>
  C4, as the code has it. In the MNIST and the Iris notebook the five steps first
  happen in the fixed order: fetch, reshape or normalize, declare the layers, hand over
  to the trainer, plot. The tensor notebook performs none of the five steps.
\<close>

theorem steps_first_seen_in_order:
  "first_seen (steps mnist_notebook) = [Fetch, Prepare, Declare, Train, Plot]
   \<and> first_seen (steps iris_notebook) = [Fetch, Prepare, Declare, Train, Plot]
   \<and> steps tensors_notebook = []"
  by (simp add: first_seen_def steps_def phase_of_def notebook_defs)

section \<open>Failures of external calls\<close>

lemma run_call_fails: "run_call L c s = Inl (e, s') \<Longrightarrow> fails_at L e s'"
  by (auto simp: run_call_def fails_at_def split: sum.splits)

lemma run_call_funs: "run_call L c s = Inr s' \<Longrightarrow> funs s' = funs s"
  by (auto simp: run_call_def split: sum.splits)

lemma run_calls_fails: "run_calls L cs s = Inl (e, s') \<Longrightarrow> fails_at L e s'"
  by (induction cs arbitrary: s) (auto split: sum.splits dest: run_call_fails)

lemma run_calls_funs: "run_calls L cs s = Inr s' \<Longrightarrow> funs s' = funs s"
  by (induction cs arbitrary: s) (auto split: sum.splits dest: run_call_funs)

lemma run_loop_fails: "run_loop L n cs s = Inl (e, s') \<Longrightarrow> fails_at L e s'"
  by (induction n arbitrary: s) (auto split: sum.splits dest: run_calls_fails)

lemma run_loop_funs: "run_loop L n cs s = Inr s' \<Longrightarrow> funs s' = funs s"
  by (induction n arbitrary: s) (auto split: sum.splits dest: run_calls_funs)

lemma run_block_fails: "run_block L b s = Inl (e, s') \<Longrightarrow> fails_at L e s'"
  by (cases b) (auto dest: run_call_fails run_loop_fails)

lemma run_block_funs: "run_block L b s = Inr s' \<Longrightarrow> funs s' = funs s"
  by (cases b) (auto dest: run_call_funs run_loop_funs)

lemma run_blocks_fails: "run_blocks L bs s = Inl (e, s') \<Longrightarrow> fails_at L e s'"
  by (induction bs arbitrary: s) (auto split: sum.splits dest: run_block_fails)

lemma run_blocks_funs: "run_blocks L bs s = Inr s' \<Longrightarrow> funs s' = funs s"
  by (induction bs arbitrary: s) (auto split: sum.splits dest: run_block_funs)

lemma run_stmts_append:
  "run_stmts L (pre @ post) s =
     (case run_stmts L pre s of Inl x \<Rightarrow> Inl x | Inr s' \<Rightarrow> run_stmts L post s')"
  by (induction pre arbitrary: s) (auto split: sum.splits)

lemma run_stmt_fails:
  assumes "run_stmt L st s = Inl (e, s')" "scoped ds (st # sts)" "\<forall>f. f \<in> set ds \<longrightarrow> funs s f \<noteq> None"
  shows "fails_at L e s'"
  using assms
  by (cases st) (auto split: option.splits dest: run_call_fails run_loop_fails run_blocks_fails)

lemma run_stmts_fails:
  assumes "run_stmts L sts s = Inl (e, s')" "scoped ds sts" "\<forall>f. f \<in> set ds \<longrightarrow> funs s f \<noteq> None"
  shows "fails_at L e s'"
  using assms
proof (induction sts arbitrary: s ds)
  case Nil
  then show ?case by simp
next
  case (Cons st sts)
  show ?case
  proof (cases "run_stmt L st s")
    case (Inl x)
    with Cons.prems(1) have "run_stmt L st s = Inl (e, s')" by simp
    then show ?thesis using Cons.prems(2,3) by (rule run_stmt_fails)
  next
    case (Inr s1)
    with Cons.prems(1) have rest: "run_stmts L sts s1 = Inl (e, s')" by simp
    show ?thesis
    proof (cases st)
      case (Def f body)
      with Inr have s1: "funs s1 = (funs s)(f \<mapsto> body)" by auto
      from Def Cons.prems(2) have sc: "scoped (f # ds) sts" by simp
      have "\<forall>g. g \<in> set (f # ds) \<longrightarrow> funs s1 g \<noteq> None"
        using Cons.prems(3) s1 by auto
      with rest sc show ?thesis by (rule Cons.IH)
    next
      case (User f)
      with Cons.prems(2) have sc: "scoped ds sts" by simp
      from User Inr have "funs s1 = funs s"
        by (auto split: option.splits dest: run_blocks_funs)
      with Cons.prems(3) have "\<forall>g. g \<in> set ds \<longrightarrow> funs s1 g \<noteq> None" by simp
      with rest sc show ?thesis by (rule Cons.IH)
    qed (use Inr Cons.prems(2,3) rest in \<open>auto dest!: run_call_funs run_loop_funs intro: Cons.IH\<close>)
  qed
qed

lemma notebooks_scoped:
  "scoped [] (concat mnist_notebook)" "scoped [] (concat iris_notebook)"
  "scoped [] (concat tensors_notebook)"
  by (simp_all add: notebook_defs)

lemma run_calls_must_fail:
  assumes "c \<in> set cs" "\<forall>a w. call L c a w = Inl e"
  shows "\<exists>x. run_calls L cs s = Inl x"
  using assms
proof (induction cs arbitrary: s)
  case Nil
  then show ?case by simp
next
  case (Cons d cs)
  show ?case
  proof (cases "run_call L d s")
    case (Inl x)
    then show ?thesis by simp
  next
    case (Inr s1)
    with Cons.prems have "d \<noteq> c"
      by (auto simp: run_call_def)
    with Cons.prems have "c \<in> set cs" by simp
    from Cons.IH [OF this Cons.prems(2)] Inr show ?thesis by simp
  qed
qed

lemma run_loop_must_fail:
  assumes "0 < n" "c \<in> set cs" "\<forall>a w. call L c a w = Inl e"
  shows "\<exists>x. run_loop L n cs s = Inl x"
proof -
  from assms(1) obtain m where n: "n = Suc m"
    by (cases n) simp_all
  from run_calls_must_fail [OF assms(2,3)] obtain x where "run_calls L cs s = Inl x"
    by blast
  with n show ?thesis by simp
qed

lemma run_block_must_fail:
  assumes "c \<in> set (block_script t b)" "\<forall>a w. call L c a w = Inl e"
    "\<forall>it w. t \<le> trips L it w"
  shows "\<exists>x. run_block L b s = Inl x"
proof (cases b)
  case (Call d)
  with assms show ?thesis
    by (simp add: run_call_def)
next
  case (Loop it cs)
  with assms(1) have t: "0 < t" and c: "c \<in> set cs"
    by (auto split: if_splits)
  from t assms(3) have "0 < trips L it (world s)"
    by (metis less_le_trans)
  from run_loop_must_fail [OF this c assms(2)] Loop show ?thesis
    by simp
qed

lemma run_blocks_must_fail:
  assumes "c \<in> set (concat (map (block_script t) bs))" "\<forall>a w. call L c a w = Inl e"
    "\<forall>it w. t \<le> trips L it w"
  shows "\<exists>x. run_blocks L bs s = Inl x"
  using assms(1)
proof (induction bs arbitrary: s)
  case Nil
  then show ?case by simp
next
  case (Cons b bs)
  show ?case
  proof (cases "run_block L b s")
    case (Inl x)
    then show ?thesis by simp
  next
    case (Inr s1)
    with run_block_must_fail [OF _ assms(2,3), of b s] have "c \<notin> set (block_script t b)"
      by auto
    with Cons.prems have "c \<in> set (concat (map (block_script t) bs))" by simp
    from Cons.IH [OF this] Inr show ?thesis by simp
  qed
qed

lemma run_stmts_must_fail:
  assumes "c \<in> set (script t ds sts)" "\<forall>a w. call L c a w = Inl e"
    "\<forall>it w. t \<le> trips L it w" "\<forall>f body. map_of ds f = Some body \<longrightarrow> funs s f = Some body"
  shows "\<exists>x. run_stmts L sts s = Inl x"
  using assms(1,4)
proof (induction sts arbitrary: s ds)
  case Nil
  then show ?case by simp
next
  case (Cons st sts)
  show ?case
  proof (cases "run_stmt L st s")
    case (Inl x)
    then show ?thesis by simp
  next
    case (Inr s1)
    have "\<exists>ds'. c \<in> set (script t ds' sts)
            \<and> (\<forall>f body. map_of ds' f = Some body \<longrightarrow> funs s1 f = Some body)"
    proof (cases st)
      case (Shell x)
      with Inr Cons.prems show ?thesis by auto
    next
      case (Import m)
      with Inr Cons.prems assms(2) show ?thesis
        by (auto simp: run_call_def split: sum.splits)
    next
      case (Bind x)
      with Inr Cons.prems show ?thesis by auto
    next
      case (Ext d)
      with Inr Cons.prems assms(2) show ?thesis
        by (auto simp: run_call_def split: sum.splits)
    next
      case (SetAttr obj field b)
      with Inr Cons.prems show ?thesis by auto
    next
      case (SetItem obj key)
      with Inr Cons.prems assms(2) show ?thesis
        by (auto simp: run_call_def split: sum.splits)
    next
      case (For it cs)
      have "c \<notin> set (concat (replicate t cs))"
      proof
        assume "c \<in> set (concat (replicate t cs))"
        then have "c \<in> set (block_script t (Loop it cs))" by simp
        from run_block_must_fail [OF this assms(2,3), of s] For Inr show False by simp
      qed
      moreover from For Inr have "funs s1 = funs s"
        by (auto dest: run_loop_funs)
      ultimately show ?thesis
        using For Cons.prems by auto
    next
      case (Def f body)
      with Inr have "funs s1 = (funs s)(f \<mapsto> body)" by auto
      with Def Cons.prems show ?thesis
        by (intro exI [of _ "(f, body) # ds"]) auto
    next
      case (ClassDef x)
      with Inr Cons.prems show ?thesis by auto
    next
      case (User f)
      show ?thesis
      proof (cases "map_of ds f")
        case None
        from User Inr have "funs s1 = funs s"
          by (auto split: option.splits dest: run_blocks_funs)
        with User None Cons.prems show ?thesis by auto
      next
        case (Some body)
        with Cons.prems(2) have fb: "funs s f = Some body" by simp
        have "c \<notin> set (concat (map (block_script t) body))"
        proof
          assume "c \<in> set (concat (map (block_script t) body))"
          from run_blocks_must_fail [OF this assms(2,3), of s] User Inr fb show False by simp
        qed
        moreover from User Inr fb have "funs s1 = funs s"
          by (auto dest: run_blocks_funs)
        ultimately show ?thesis
          using User Some Cons.prems by auto
      qed
    qed
    then obtain ds' where "c \<in> set (script t ds' sts)"
      "\<forall>f body. map_of ds' f = Some body \<longrightarrow> funs s1 f = Some body"
      by blast
    from Cons.IH [OF this] Inr show ?thesis by simp
  qed
qed


lemma fail_nth_call:
  "run_call (fail_nth k t) c s
   = (if world s = k then Inl (LibError c, s) else Inr (s\<lparr>world := Suc (world s)\<rparr>))"
  by (simp add: run_call_def fail_nth_def)

lemma run_calls_nth:
  assumes "world s \<le> k"
  shows "run_calls (fail_nth k t) cs s
         = (if k < world s + length cs
            then Inl (LibError (cs ! (k - world s)), s\<lparr>world := k\<rparr>)
            else Inr (s\<lparr>world := world s + length cs\<rparr>))"
  using assms
proof (induction cs arbitrary: s)
  case Nil
  then show ?case by simp
next
  case (Cons c cs)
  show ?case
  proof (cases "world s = k")
    case True
    then show ?thesis by (simp add: fail_nth_call)
  next
    case False
    with Cons.prems have lt: "world s < k" by simp
    let ?s = "s\<lparr>world := Suc (world s)\<rparr>"
    have "world ?s \<le> k" using lt by simp
    from Cons.IH [OF this] False lt show ?thesis
      by (simp add: fail_nth_call Suc_diff_le)
  qed
qed

lemma run_loop_nth:
  assumes "world s \<le> k"
  shows "run_loop (fail_nth k t) n cs s
         = (if k < world s + length (concat (replicate n cs))
            then Inl (LibError (concat (replicate n cs) ! (k - world s)), s\<lparr>world := k\<rparr>)
            else Inr (s\<lparr>world := world s + length (concat (replicate n cs))\<rparr>))"
  using assms
proof (induction n arbitrary: s)
  case 0
  then show ?case by simp
next
  case (Suc n)
  show ?case
  proof (cases "k < world s + length cs")
    case True
    with Suc.prems have "k - world s < length cs" by arith
    with True Suc.prems show ?thesis
      by (simp add: run_calls_nth nth_append)
  next
    case False
    let ?s = "s\<lparr>world := world s + length cs\<rparr>"
    have "world ?s \<le> k" using False by simp
    moreover from False have "\<not> k - world s < length cs" by arith
    moreover have "k - (world s + length cs) = k - world s - length cs" by simp
    ultimately show ?thesis
      using Suc.IH [of ?s] False Suc.prems
      by (simp add: run_calls_nth nth_append add.assoc)
  qed
qed

lemma run_block_nth:
  assumes "world s \<le> k"
  shows "run_block (fail_nth k t) b s
         = (if k < world s + length (block_script t b)
            then Inl (LibError (block_script t b ! (k - world s)), s\<lparr>world := k\<rparr>)
            else Inr (s\<lparr>world := world s + length (block_script t b)\<rparr>))"
proof (cases b)
  case (Call c)
  with assms show ?thesis
    by (auto simp: fail_nth_call)
next
  case (Loop it cs)
  have "trips (fail_nth k t) it (world s) = t"
    by (simp add: fail_nth_def)
  with Loop run_loop_nth [OF assms, of t t cs] show ?thesis
    by simp
qed

lemma run_blocks_nth:
  assumes "world s \<le> k"
  shows "run_blocks (fail_nth k t) bs s
         = (if k < world s + length (concat (map (block_script t) bs))
            then Inl (LibError (concat (map (block_script t) bs) ! (k - world s)), s\<lparr>world := k\<rparr>)
            else Inr (s\<lparr>world := world s + length (concat (map (block_script t) bs))\<rparr>))"
  using assms
proof (induction bs arbitrary: s)
  case Nil
  then show ?case by simp
next
  case (Cons b bs)
  show ?case
  proof (cases "k < world s + length (block_script t b)")
    case True
    with Cons.prems have "k - world s < length (block_script t b)" by arith
    with True Cons.prems show ?thesis
      by (simp add: run_block_nth nth_append)
  next
    case False
    let ?s = "s\<lparr>world := world s + length (block_script t b)\<rparr>"
    have "world ?s \<le> k" using False by simp
    moreover from False have "\<not> k - world s < length (block_script t b)" by arith
    moreover have "k - (world s + length (block_script t b))
                   = k - world s - length (block_script t b)" by simp
    ultimately show ?thesis
      using Cons.IH [of ?s] False Cons.prems
      by (simp add: run_block_nth nth_append add.assoc)
  qed
qed

lemma run_stmts_nth:
  assumes "world s \<le> k" "scoped (map fst ds) sts"
    "\<forall>f. f \<in> set (map fst ds) \<longrightarrow> funs s f = map_of ds f"
  shows "nth_outcome k (script t ds sts) s (run_stmts (fail_nth k t) sts s)"
  using assms
proof (induction sts arbitrary: s ds)
  case Nil
  then show ?case by (simp add: nth_outcome_def)
next
  case (Cons st sts)
  have head: "\<exists>xs ds'. script t ds (st # sts) = xs @ script t ds' sts
      \<and> scoped (map fst ds') sts
      \<and> (if k < world s + length xs
          then (\<exists>s'. run_stmt (fail_nth k t) st s = Inl (LibError (xs ! (k - world s)), s')
                  \<and> world s' = k)
          else (\<exists>s1. run_stmt (fail_nth k t) st s = Inr s1 \<and> world s1 = world s + length xs
                  \<and> (\<forall>f. f \<in> set (map fst ds') \<longrightarrow> funs s1 f = map_of ds' f)))"
  proof (cases st)
    case (Shell x)
    with Cons.prems show ?thesis
      by (intro exI [of _ "[]"] exI [of _ ds]) (simp add: fail_nth_def)
  next
    case (Import m)
    with Cons.prems show ?thesis
      by (intro exI [of _ "[''import '' @ m]"] exI [of _ ds]) (auto simp: fail_nth_call)
  next
    case (Bind x)
    with Cons.prems show ?thesis
      by (intro exI [of _ "[]"] exI [of _ ds]) simp
  next
    case (Ext c)
    with Cons.prems show ?thesis
      by (intro exI [of _ "[c]"] exI [of _ ds]) (auto simp: fail_nth_call)
  next
    case (SetAttr obj field b)
    with Cons.prems show ?thesis
      by (intro exI [of _ "[]"] exI [of _ ds]) simp
  next
    case (SetItem obj key)
    with Cons.prems show ?thesis
      by (intro exI [of _ "[obj @ ''.__setitem__'']"] exI [of _ ds]) (auto simp: fail_nth_call)
  next
    case (For it cs)
    have "trips (fail_nth k t) it (world s) = t"
      by (simp add: fail_nth_def)
    with For Cons.prems run_loop_nth [OF Cons.prems(1), of t t cs] show ?thesis
      by (intro exI [of _ "concat (replicate t cs)"] exI [of _ ds]) auto
  next
    case (Def f body)
    with Cons.prems show ?thesis
      by (intro exI [of _ "[]"] exI [of _ "(f, body) # ds"]) auto
  next
    case (ClassDef x)
    with Cons.prems show ?thesis
      by (intro exI [of _ "[]"] exI [of _ ds]) simp
  next
    case (User f)
    with Cons.prems(2) have f: "f \<in> set (map fst ds)" and sc: "scoped (map fst ds) sts"
      by simp_all
    from f obtain body where body: "map_of ds f = Some body"
      by (metis map_of_eq_None_iff not_Some_eq set_map)
    with f Cons.prems(3) have fb: "funs s f = Some body" by simp
    from User body fb sc Cons.prems(3) run_blocks_nth [OF Cons.prems(1), of t body]
    show ?thesis
      by (intro exI [of _ "concat (map (block_script t) body)"] exI [of _ ds]) auto
  qed
  then obtain xs ds' where split: "script t ds (st # sts) = xs @ script t ds' sts"
    and sc: "scoped (map fst ds') sts"
    and h: "if k < world s + length xs
          then (\<exists>s'. run_stmt (fail_nth k t) st s = Inl (LibError (xs ! (k - world s)), s')
                  \<and> world s' = k)
          else (\<exists>s1. run_stmt (fail_nth k t) st s = Inr s1 \<and> world s1 = world s + length xs
                  \<and> (\<forall>f. f \<in> set (map fst ds') \<longrightarrow> funs s1 f = map_of ds' f))"
    by blast
  show ?case
  proof (cases "k < world s + length xs")
    case True
    with Cons.prems(1) have "k - world s < length xs" by arith
    with True h show ?thesis
      unfolding split by (auto simp: nth_outcome_def nth_append)
  next
    case False
    with h obtain s1 where s1: "run_stmt (fail_nth k t) st s = Inr s1"
      "world s1 = world s + length xs"
      "\<forall>f. f \<in> set (map fst ds') \<longrightarrow> funs s1 f = map_of ds' f"
      by auto
    from False s1(2) have "world s1 \<le> k" by simp
    moreover from False have "\<not> k - world s < length xs" by arith
    moreover have "k - (world s + length xs) = k - world s - length xs" by simp
    ultimately show ?thesis
      using Cons.IH [OF _ sc s1(3)] s1(1,2) False
      unfolding split by (auto simp: nth_outcome_def nth_append add.assoc)
  qed
qed

text \<open>
  C5. For each notebook: (1) with any outside and any starting state, an error that
  ends the run is the error an external call raises in the very state the run ends with
  (it is not replaced, and the state is the one reached, not an earlier one); (2) when a
  statement fails after the statements before it have succeeded, the run of the whole
  notebook ends there with that statement's error and state, whatever follows it;
  (3) with any outside in which a call the notebook makes always fails (a call inside
  one of its functions or inside a loop included), the run fails; (4) when exactly the call
  number \<open>k\<close> of the run fails, the run ends at that call, after \<open>k\<close> successful
  calls, with the error of that very call, and it succeeds only when \<open>k\<close> is beyond
  the last call.
\<close>

theorem failures_surface_unchanged:
  assumes nb: "nb = mnist_notebook \<or> nb = iris_notebook \<or> nb = tensors_notebook"
  shows "(\<forall>e s'. run_notebook L nb s = Inl (e, s') \<longrightarrow> fails_at L e s')
       \<and> (\<forall>pre st post s1 e s2. concat nb = pre @ st # post \<longrightarrow> run_stmts L pre s = Inr s1
             \<longrightarrow> run_stmt L st s1 = Inl (e, s2) \<longrightarrow> run_notebook L nb s = Inl (e, s2))
       \<and> (\<forall>c e t. c \<in> set (script t [] (concat nb)) \<longrightarrow> (\<forall>a w. call L c a w = Inl e)
             \<longrightarrow> (\<forall>it w. t \<le> trips L it w)
             \<longrightarrow> (\<exists>e' s'. run_notebook L nb s = Inl (e', s') \<and> fails_at L e' s'))
       \<and> (\<forall>k t z. world z = 0 \<longrightarrow> k < length (script t [] (concat nb))
             \<longrightarrow> (\<exists>s'. run_notebook (fail_nth k t) nb z
                          = Inl (LibError (script t [] (concat nb) ! k), s') \<and> world s' = k))
       \<and> (\<forall>k t z. world z = 0 \<longrightarrow> length (script t [] (concat nb)) \<le> k
             \<longrightarrow> (\<exists>s'. run_notebook (fail_nth k t) nb z = Inr s'
                          \<and> world s' = length (script t [] (concat nb))))"
proof -
  from nb have sc: "scoped [] (concat nb)"
    using notebooks_scoped by blast
  have origin: "fails_at L e s'" if "run_notebook L nb s = Inl (e, s')" for e s'
    using that sc run_stmts_fails [of L "concat nb" s e s' "[]"] by (simp add: run_notebook_def)
  have stop: "run_notebook L nb s = Inl (e, s2)"
    if "concat nb = pre @ st # post" "run_stmts L pre s = Inr s1" "run_stmt L st s1 = Inl (e, s2)"
    for pre st post s1 e s2
    using that by (simp add: run_notebook_def run_stmts_append)
  have must: "\<exists>e' s'. run_notebook L nb s = Inl (e', s') \<and> fails_at L e' s'"
    if c: "c \<in> set (script t [] (concat nb))" and f: "\<forall>a w. call L c a w = Inl e"
      and t: "\<forall>it w. t \<le> trips L it w" for c e t
  proof -
    have "\<forall>f body. map_of [] f = Some body \<longrightarrow> funs s f = Some body"
      by simp
    from run_stmts_must_fail [OF c f t this] obtain e' s' where
      "run_notebook L nb s = Inl (e', s')"
      by (auto simp: run_notebook_def)
    with origin show ?thesis
      by blast
  qed
  have nth: "nth_outcome k (script t [] (concat nb)) z (run_notebook (fail_nth k t) nb z)"
    if "world z = 0" for k t z
    unfolding run_notebook_def
    using that sc by (intro run_stmts_nth) simp_all
  have hit: "\<exists>s'. run_notebook (fail_nth k t) nb z
                     = Inl (LibError (script t [] (concat nb) ! k), s') \<and> world s' = k"
    if "world z = 0" "k < length (script t [] (concat nb))" for k t z
    using nth [OF that(1), of k t] that by (simp add: nth_outcome_def)
  have miss: "\<exists>s'. run_notebook (fail_nth k t) nb z = Inr s'
                      \<and> world s' = length (script t [] (concat nb))"
    if "world z = 0" "length (script t [] (concat nb)) \<le> k" for k t z
    using nth [OF that(1), of k t] that by (simp add: nth_outcome_def)
  from origin stop must hit miss show ?thesis
    by blast
qed

text \<open>
  Two runs of the MNIST notebook. When the forward pass \<^verbatim>\<open>model(image_tensor)\<close> fails,
  the run ends with \<^verbatim>\<open>model.retain_values\<close> still \<^verbatim>\<open>True\<close>: the assignment
  \<^verbatim>\<open>model.retain_values = False\<close> after the call is not reached. When nothing fails,
  the field ends \<^verbatim>\<open>False\<close>.
\<close>

lemma forward_pass_fails:
  "(case run_notebook (failing_at ''model'') mnist_notebook start of
      Inl (e, s') \<Rightarrow> e = LibError ''model'' \<and> attrs s' (''model'', ''retain_values'') = Some True
    | Inr s' \<Rightarrow> False)"
  by (simp add: run_notebook_def notebook_defs scale_body_def mnist_plot_history_body_def
      failing_at_def start_def run_call_def)

lemma nothing_fails:
  "(case run_notebook (failing_at []) mnist_notebook start of
      Inl x \<Rightarrow> False
    | Inr s' \<Rightarrow> attrs s' (''model'', ''retain_values'') = Some False)"
  by (simp add: run_notebook_def notebook_defs scale_body_def mnist_plot_history_body_def
      plot_channels_body_def failing_at_def start_def run_call_def)

text \<open>
  A failed download (the first \<^verbatim>\<open>pd.read_csv\<close> of the MNIST notebook raises), and a
  failure inside the notebook's own function: \<^verbatim>\<open>x.mean()\<close> in the first call of
  \<^verbatim>\<open>scale\<close> is call number 29 of the run. The run has fewer than 500 calls.
\<close>

lemma mnist_script_29: "script 1 [] (concat mnist_notebook) ! 29 = ''x.mean''"
  by (simp add: notebook_defs scale_body_def)

lemma mnist_script_mean: "''x.mean'' \<in> set (script 0 [] (concat mnist_notebook))"
  by (simp add: notebook_defs scale_body_def)

lemma mnist_script_length: "29 < length (script 1 [] (concat mnist_notebook))"
  by (simp add: notebook_defs scale_body_def)

theorem failures_surface_unchanged_witness:
  "run_notebook (failing_at ''pd.read_csv'') mnist_notebook start
     = Inl (LibError ''pd.read_csv'', start)
   \<and> fails_at (failing_at ''pd.read_csv'') (LibError ''pd.read_csv'') start
   \<and> (\<exists>e' s'. run_notebook (failing_at ''x.mean'') mnist_notebook start = Inl (e', s')
         \<and> fails_at (failing_at ''x.mean'') e' s')
   \<and> (\<exists>s'. run_notebook (fail_nth 29 1) mnist_notebook count_start
               = Inl (LibError ''x.mean'', s') \<and> world s' = 29)
   \<and> (\<exists>s'. run_notebook (fail_nth 500 1) mnist_notebook count_start = Inr s'
               \<and> world s' = length (script 1 [] (concat mnist_notebook)))"
proof -
  let ?L = "failing_at ''pd.read_csv''"
  let ?pre = "[Shell ''pip install -q pandas scikit-learn matplotlib'',
               Import ''random'', Import ''compyute'',
               Ext ''cp.backend.gpu_available'',
               Import ''pandas'', Bind ''train_url'']"
  have split: "concat mnist_notebook
               = ?pre @ Ext ''pd.read_csv'' # drop 7 (concat mnist_notebook)"
    by (simp add: notebook_defs)
  have pre: "run_stmts ?L ?pre start = Inr start"
    by (simp add: failing_at_def start_def run_call_def)
  have st: "run_stmt ?L (Ext ''pd.read_csv'') start = Inl (LibError ''pd.read_csv'', start)"
    by (simp add: failing_at_def start_def run_call_def)
  have nb: "mnist_notebook = mnist_notebook \<or> mnist_notebook = iris_notebook
            \<or> mnist_notebook = tensors_notebook"
    by simp
  note fsu = failures_surface_unchanged [OF nb, of ?L start]
  from fsu split pre st
  have run: "run_notebook ?L mnist_notebook start = Inl (LibError ''pd.read_csv'', start)"
    by blast
  with fsu have origin: "fails_at ?L (LibError ''pd.read_csv'') start"
    by blast
  let ?M = "failing_at ''x.mean''"
  have always: "\<forall>a w. call ?M ''x.mean'' a w = Inl (LibError ''x.mean'')"
    by (simp add: failing_at_def)
  have trips: "\<forall>it w. 0 \<le> trips ?M it w"
    by simp
  from failures_surface_unchanged [OF nb, of ?M start] mnist_script_mean always trips
  have inside: "\<exists>e' s'. run_notebook ?M mnist_notebook start = Inl (e', s')
                  \<and> fails_at ?M e' s'"
    by blast
  have z: "world count_start = 0"
    by (simp add: count_start_def)
  from failures_surface_unchanged [OF nb, of ?M start] z mnist_script_length
  have "\<exists>s'. run_notebook (fail_nth 29 1) mnist_notebook count_start
               = Inl (LibError (script 1 [] (concat mnist_notebook) ! 29), s') \<and> world s' = 29"
    by blast
  then have nth: "\<exists>s'. run_notebook (fail_nth 29 1) mnist_notebook count_start
               = Inl (LibError ''x.mean'', s') \<and> world s' = 29"
    unfolding mnist_script_29 .
  have "length (script 1 [] (concat mnist_notebook)) \<le> 500"
    by (simp add: notebook_defs scale_body_def mnist_plot_history_body_def
        plot_channels_body_def)
  with failures_surface_unchanged [OF nb, of ?M start] z
  have beyond: "\<exists>s'. run_notebook (fail_nth 500 1) mnist_notebook count_start = Inr s'
                  \<and> world s' = length (script 1 [] (concat mnist_notebook))"
    by blast
  from run origin inside nth beyond show ?thesis
    by blast
qed

section \<open>Saving and loading the Iris model\<close>

text \<open>
  C6. Whatever the trained model and the trainer's optimizer hold, whatever files exist
  and whatever parameters the new model starts with: after the save cell, the load cell
  succeeds, the loaded model has the declared layer sequence and its state dictionary
  is the one that was saved, and so is the optimizer's.
\<close>

theorem save_load_round_trip:
  "\<exists>loaded_model loaded_optimizer.
      load_cell fresh (save_cell model optimizer fs) = Inr (loaded_model, loaded_optimizer)
      \<and> layers loaded_model = [Linear 4 16 True, ReLU, Linear 16 3 True]
      \<and> get_state_dict loaded_model = get_state_dict model
      \<and> opt_get_state_dict loaded_optimizer = opt_get_state_dict optimizer"
  by (simp add: load_cell_def save_cell_def cp_save_def cp_load_def dict_get_def then_do_def
      get_state_dict_def load_state_dict_def opt_get_state_dict_def opt_load_state_dict_def
      iris_model_def)

end
